theory Spec2Isabelle
  imports Main
begin

text \<open>
  A shallow embedding of two form components of the web client: the modal that updates
  the resolution status of a test-case incident (\<^verbatim>\<open>TestCaseStatusModal\<close>) and the form
  that creates a user or a bot (\<^verbatim>\<open>CreateUser\<close>). React state is a record that every
  handler takes and returns; an asynchronous handler is cut at its \<^verbatim>\<open>await\<close>, the
  network answer being an argument; calls of the callbacks the parent passes in are
  logged in the state, in order. The store of the form library is part of the state,
  apart from the React state: the rules of a form and the values handed to its
  \<^verbatim>\<open>onFinish\<close> come from the store.
\<close>


section \<open>Status modal\<close>

subsection \<open>Data\<close>

text \<open>
  \<^verbatim>\<open>TestCaseResolutionStatusTypes\<close> is a generated string enum. The component names its
  members \<^verbatim>\<open>Assigned\<close> and \<^verbatim>\<open>Resolved\<close>; every other member is \<open>OtherStatus\<close> with its
  string. \<^verbatim>\<open>Object.values(TestCaseResolutionStatusTypes)\<close> is an argument of whatever
  reads it.
\<close>

datatype TestCaseResolutionStatusTypes = Assigned | Resolved | OtherStatus string

text \<open>
  An entity reference, with the fields the modal writes: \<^verbatim>\<open>id\<close>, \<^verbatim>\<open>type\<close>, \<^verbatim>\<open>name\<close>,
  \<^verbatim>\<open>displayName\<close> (prefixed, since \<open>id\<close> is the identity of HOL).
\<close>

record EntityReference =
  ref_id :: string
  ref_type :: string
  ref_name :: "string option"
  ref_displayName :: "string option"

text \<open>
  An element of the watched assignee array, with the fields \<^verbatim>\<open>handleFormSubmit\<close> reads
  from \<^verbatim>\<open>updatedAssignees[0]\<close>: \<^verbatim>\<open>name\<close>, \<^verbatim>\<open>displayName\<close>, \<^verbatim>\<open>value\<close>.
\<close>

record SelectedAssignee =
  sel_name :: "string option"
  sel_displayName :: "string option"
  sel_value :: string

text \<open>
  The value of the form field \<^verbatim>\<open>['testCaseResolutionStatusDetails', 'assignee']\<close>. The
  watch is untyped in the source, and the source uses it in three shapes: unset; one
  entity reference, which the effect on \<^verbatim>\<open>data\<close> stores
  (\<^verbatim>\<open>form.setFieldValue(..., assignee)\<close>) and the user tag renders
  (\<^verbatim>\<open>updatedAssignees.name ?? updatedAssignees.id\<close>); an array, which
  \<^verbatim>\<open>handleFormSubmit\<close> indexes.
\<close>

datatype AssigneeValue =
  AssigneeUndefined
  | AssigneeEntity EntityReference
  | AssigneeArray "SelectedAssignee list"

text \<open>
  \<^verbatim>\<open>testCaseResolutionStatusDetails\<close>; \<open>'r\<close> is the generated enum
  \<^verbatim>\<open>TestCaseFailureReasonType\<close>.
\<close>

record 'r StatusDetails =
  testCaseFailureReason :: "'r option"
  testCaseFailureComment :: "string option"
  assignee :: AssigneeValue
  resolvedBy :: "EntityReference option"

text \<open>
  \<^verbatim>\<open>CreateTestCaseResolutionStatus\<close>: the form's values and the request. The \<^verbatim>\<open>data\<close>
  prop (an existing status) is read through the same three fields.
\<close>

record 'r CreateTestCaseResolutionStatus =
  testCaseResolutionStatusType :: "TestCaseResolutionStatusTypes option"
  testCaseReference :: "string option"
  testCaseResolutionStatusDetails :: "'r StatusDetails option"

text \<open>The object a spread of an undefined details object gives: no field set.\<close>

definition emptyDetails :: "'r StatusDetails" where
  "emptyDetails =
     \<lparr>testCaseFailureReason = None, testCaseFailureComment = None,
      assignee = AssigneeUndefined, resolvedBy = None\<rparr>"

subsection \<open>Status options\<close>

record StatusOption =
  opt_label :: TestCaseResolutionStatusTypes
  opt_value :: TestCaseResolutionStatusTypes

text \<open>\<^verbatim>\<open>data?.testCaseResolutionStatusType\<close>.\<close>

definition dataStatusType ::
  "'r CreateTestCaseResolutionStatus option \<Rightarrow> TestCaseResolutionStatusTypes option" where
  "dataStatusType data =
     (case data of None \<Rightarrow> None | Some d \<Rightarrow> testCaseResolutionStatusType d)"

text \<open>The memo \<^verbatim>\<open>statusOptions\<close>; \<open>enumValues\<close> is \<^verbatim>\<open>Object.values\<close> of the enum.\<close>

definition statusOptions ::
  "TestCaseResolutionStatusTypes list \<Rightarrow> 'r CreateTestCaseResolutionStatus option
   \<Rightarrow> StatusOption list" where
  "statusOptions enumValues data =
     (let status =
        (if dataStatusType data = Some Assigned then [Assigned, Resolved] else enumValues)
      in map (\<lambda>v. \<lparr>opt_label = v, opt_value = v\<rparr>) status)"

subsection \<open>Submission\<close>

text \<open>
  What the component takes from outside: the prop \<^verbatim>\<open>testCaseFqn\<close>, the application
  store's \<^verbatim>\<open>currentUser\<close>, the helper \<^verbatim>\<open>getEntityReferenceFromEntity\<close> and the constant
  \<^verbatim>\<open>EntityType.USER\<close> (neither is among the sources), the answer of the network call
  \<^verbatim>\<open>postTestCaseIncidentStatus\<close> to each request (\<open>Inl\<close> a rejection), and the two
  callbacks of the caller, \<^verbatim>\<open>onSubmit\<close> and \<^verbatim>\<open>onCancel\<close>: each returns, which is \<open>None\<close>,
  or throws a value.
\<close>

record ('u, 'r, 'resp, 'err) ModalEnv =
  testCaseFqn :: string
  currentUser :: "'u option"
  getEntityReferenceFromEntity :: "'u \<Rightarrow> string \<Rightarrow> EntityReference"
  EntityType_USER :: string
  postTestCaseIncidentStatus :: "'r CreateTestCaseResolutionStatus \<Rightarrow> 'err + 'resp"
  onSubmit :: "'resp \<Rightarrow> 'err option"
  onCancel :: "'err option"

datatype JsError = TypeError

text \<open>What the handler does to the outside, in order.\<close>

datatype ('r, 'resp, 'err) ModalCall =
  PostStatus "'r CreateTestCaseResolutionStatus"
  | OnSubmit 'resp
  | OnCancel
  | ShowErrorToast 'err

text \<open>
  The state of the modal. \<open>formValues\<close> is the store of the form: it keeps a value for
  every field that was ever set, by the initial values, by an input or by
  \<^verbatim>\<open>form.setFieldValue\<close>, whether the field's item is mounted or not.
\<close>

record ('r, 'resp, 'err) ModalState =
  isLoading :: bool
  formValues :: "'r CreateTestCaseResolutionStatus"
  calls :: "('r, 'resp, 'err) ModalCall list"

text \<open>
  The values of the mounted items, which is what the form library hands to \<^verbatim>\<open>onFinish\<close>
  and to a watch. The status item is always mounted; the items of reason and comment
  are mounted while the status is \<^verbatim>\<open>Resolved\<close>, the item of the assignee while it is
  \<^verbatim>\<open>Assigned\<close>. A value the store holds for an item that is not mounted is left out,
  and so are \<^verbatim>\<open>testCaseReference\<close> and \<^verbatim>\<open>resolvedBy\<close>, which have no item.
\<close>

definition getFieldsValue ::
  "'r CreateTestCaseResolutionStatus \<Rightarrow> 'r CreateTestCaseResolutionStatus" where
  "getFieldsValue store =
     (let statusType = testCaseResolutionStatusType store;
          held =
            (case testCaseResolutionStatusDetails store of
               None \<Rightarrow> emptyDetails
             | Some d \<Rightarrow> d)
      in \<lparr>testCaseResolutionStatusType = statusType,
          testCaseReference = None,
          testCaseResolutionStatusDetails =
            (if statusType = Some Resolved
             then Some \<lparr>testCaseFailureReason = testCaseFailureReason held,
                        testCaseFailureComment = testCaseFailureComment held,
                        assignee = AssigneeUndefined, resolvedBy = None\<rparr>
             else if statusType = Some Assigned
             then Some \<lparr>testCaseFailureReason = None, testCaseFailureComment = None,
                        assignee = assignee held, resolvedBy = None\<rparr>
             else None)\<rparr>)"

text \<open>
  \<^verbatim>\<open>Form.useWatch(['testCaseResolutionStatusDetails', 'assignee'], form)\<close>: the value of
  the assignee item, undefined while that item is not mounted.
\<close>

definition updatedAssignees :: "'r CreateTestCaseResolutionStatus \<Rightarrow> AssigneeValue" where
  "updatedAssignees store =
     (case testCaseResolutionStatusDetails (getFieldsValue store) of
        None \<Rightarrow> AssigneeUndefined
      | Some d \<Rightarrow> assignee d)"

text \<open>
  The local \<^verbatim>\<open>updatedData\<close> of \<^verbatim>\<open>handleFormSubmit\<close> after its \<^verbatim>\<open>switch\<close>. Reading
  \<^verbatim>\<open>.length\<close> of an undefined watch throws; \<^verbatim>\<open>.length\<close> of an object that is no array
  is undefined, and \<^verbatim>\<open>undefined > 0\<close> is false.
\<close>

definition updatedData ::
  "('u, 'r, 'resp, 'err) ModalEnv \<Rightarrow> AssigneeValue \<Rightarrow> 'r CreateTestCaseResolutionStatus
   \<Rightarrow> JsError + 'r CreateTestCaseResolutionStatus" where
  "updatedData env watched data =
     (let base = data\<lparr>testCaseReference := Some (testCaseFqn env)\<rparr>;
          details =
            (case testCaseResolutionStatusDetails data of
               None \<Rightarrow> emptyDetails
             | Some d \<Rightarrow> d)
      in case testCaseResolutionStatusType data of
           Some Resolved \<Rightarrow>
             Inr (base\<lparr>testCaseResolutionStatusDetails :=
               Some (details\<lparr>resolvedBy :=
                 (case currentUser env of
                    Some u \<Rightarrow> Some (getEntityReferenceFromEntity env u (EntityType_USER env))
                  | None \<Rightarrow> None)\<rparr>)\<rparr>)
         | Some Assigned \<Rightarrow>
             (case watched of
                AssigneeUndefined \<Rightarrow> Inl TypeError
              | AssigneeEntity e \<Rightarrow> Inr base
              | AssigneeArray [] \<Rightarrow> Inr base
              | AssigneeArray (first # others) \<Rightarrow>
                  Inr (base\<lparr>testCaseResolutionStatusDetails :=
                    Some (details\<lparr>assignee :=
                      AssigneeEntity
                        \<lparr>ref_id = sel_value first,
                         ref_type = EntityType_USER env,
                         ref_name = sel_name first,
                         ref_displayName = sel_displayName first\<rparr>\<rparr>)\<rparr>))
         | _ \<Rightarrow> Inr base)"

text \<open>
  The \<^verbatim>\<open>try\<close> of \<^verbatim>\<open>handleFormSubmit\<close> with its \<^verbatim>\<open>catch\<close>: the calls it makes for a
  request, in order. The \<^verbatim>\<open>try\<close> holds the network call and both callbacks, so a value
  thrown by \<^verbatim>\<open>onSubmit\<close> or \<^verbatim>\<open>onCancel\<close> is caught and shown like a rejection of the
  network call, and what follows the throw in the \<^verbatim>\<open>try\<close> does not run.
\<close>

definition tryPost ::
  "('u, 'r, 'resp, 'err) ModalEnv \<Rightarrow> 'r CreateTestCaseResolutionStatus
   \<Rightarrow> ('r, 'resp, 'err) ModalCall list" where
  "tryPost env request =
     (case postTestCaseIncidentStatus env request of
        Inl error \<Rightarrow> [PostStatus request, ShowErrorToast error]
      | Inr response \<Rightarrow>
          (case onSubmit env response of
             Some thrown \<Rightarrow> [PostStatus request, OnSubmit response, ShowErrorToast thrown]
           | None \<Rightarrow>
               (case onCancel env of
                  Some thrown \<Rightarrow>
                    [PostStatus request, OnSubmit response, OnCancel, ShowErrorToast thrown]
                | None \<Rightarrow> [PostStatus request, OnSubmit response, OnCancel])))"

text \<open>
  \<^verbatim>\<open>handleFormSubmit(data)\<close>: the state it leaves, and the error it rejects with, if any.
  An error of the \<^verbatim>\<open>switch\<close> is thrown before the \<^verbatim>\<open>try\<close>, so neither \<^verbatim>\<open>catch\<close> nor
  \<^verbatim>\<open>finally\<close> runs for it. The watch is the one of the render the handler belongs to,
  taken from the store.
\<close>

definition handleFormSubmit ::
  "('u, 'r, 'resp, 'err) ModalEnv \<Rightarrow> ('r, 'resp, 'err) ModalState
   \<Rightarrow> 'r CreateTestCaseResolutionStatus
   \<Rightarrow> ('r, 'resp, 'err) ModalState \<times> JsError option" where
  "handleFormSubmit env st data =
     (let st1 = st\<lparr>isLoading := True\<rparr>
      in case updatedData env (updatedAssignees (formValues st)) data of
           Inl e \<Rightarrow> (st1, Some e)
         | Inr request \<Rightarrow>
             (st1\<lparr>calls := calls st1 @ tryPost env request, isLoading := False\<rparr>, None))"

text \<open>
  The rules of the form, on the store. Each item carries \<^verbatim>\<open>required: true\<close>, which the
  form library fails on an undefined value, an empty string and an empty array; only
  the rules of mounted items run. The result lists the items whose rule fails.
\<close>

datatype ModalField = StatusField | ReasonField | CommentField | AssigneeField

definition validateFields :: "'r CreateTestCaseResolutionStatus \<Rightarrow> ModalField list" where
  "validateFields store =
     (let statusType = testCaseResolutionStatusType store;
          details =
            (case testCaseResolutionStatusDetails store of
               None \<Rightarrow> emptyDetails
             | Some d \<Rightarrow> d)
      in (if statusType = None then [StatusField] else []) @
         (if statusType = Some Resolved
          then (if testCaseFailureReason details = None then [ReasonField] else []) @
               (if testCaseFailureComment details = None \<or>
                   testCaseFailureComment details = Some []
                then [CommentField] else [])
          else []) @
         (if statusType = Some Assigned
          then (if assignee details = AssigneeUndefined \<or> assignee details = AssigneeArray []
                then [AssigneeField] else [])
          else []))"

text \<open>
  Pressing the submit button: when no rule fails the form library calls \<^verbatim>\<open>onFinish\<close>,
  which is \<^verbatim>\<open>handleFormSubmit\<close>, with the values of the mounted items; otherwise it does
  not call it.
\<close>

definition submitStatusForm ::
  "('u, 'r, 'resp, 'err) ModalEnv \<Rightarrow> ('r, 'resp, 'err) ModalState
   \<Rightarrow> ('r, 'resp, 'err) ModalState \<times> JsError option" where
  "submitStatusForm env st =
     (if validateFields (formValues st) = []
      then handleFormSubmit env st (getFieldsValue (formValues st))
      else (st, None))"

text \<open>\<^verbatim>\<open>data?.testCaseResolutionStatusDetails?.assignee\<close>.\<close>

definition dataAssignee :: "'r CreateTestCaseResolutionStatus \<Rightarrow> AssigneeValue" where
  "dataAssignee d =
     (case testCaseResolutionStatusDetails d of
        None \<Rightarrow> AssigneeUndefined
      | Some det \<Rightarrow> assignee det)"

text \<open>
  The effect on \<^verbatim>\<open>data\<close>: an existing \<^verbatim>\<open>Assigned\<close> status with an assignee stores that
  assignee in the form field.
\<close>

definition prepopulate ::
  "'r CreateTestCaseResolutionStatus option \<Rightarrow> 'r CreateTestCaseResolutionStatus
   \<Rightarrow> 'r CreateTestCaseResolutionStatus" where
  "prepopulate data store =
     (case data of
        None \<Rightarrow> store
      | Some d \<Rightarrow>
          (case dataAssignee d of
             AssigneeUndefined \<Rightarrow> store
           | a \<Rightarrow>
               (if testCaseResolutionStatusType d = Some Assigned
                then store\<lparr>testCaseResolutionStatusDetails :=
                  Some ((case testCaseResolutionStatusDetails store of
                           None \<Rightarrow> emptyDetails
                         | Some det \<Rightarrow> det)\<lparr>assignee := a\<rparr>)\<rparr>
                else store)))"

section \<open>User form\<close>

subsection \<open>Role selection\<close>

text \<open>
  The role selection of the user form is the React state
  \<^verbatim>\<open>selectedRoles: Array<string | undefined>\<close>, initially the empty array. An id is
  \<^verbatim>\<open>string | undefined\<close>, modelled by an option; the functions below are written for
  any element type.
\<close>

text \<open>\<^verbatim>\<open>Array.prototype.indexOf\<close>: the first index holding the element, or -1.\<close>

fun indexOf :: "'a list \<Rightarrow> 'a \<Rightarrow> int" where
  "indexOf [] x = -1"
| "indexOf (y # ys) x =
     (if y = x then 0 else (let i = indexOf ys x in if i < 0 then -1 else i + 1))"

text \<open>
  \<^verbatim>\<open>Array.prototype.splice(start, 1)\<close> on a copy, returning the array that is left: a
  negative start counts from the end, a start beyond the end removes nothing.
\<close>

definition splice1 :: "'a list \<Rightarrow> int \<Rightarrow> 'a list" where
  "splice1 xs start =
     (let n = int (length xs);
          s = (if start < 0 then max (n + start) 0 else min start n)
      in take (nat s) xs @ drop (nat s + 1) xs)"

text \<open>\<^verbatim>\<open>Array.prototype.includes\<close>.\<close>

definition array_includes :: "'a list \<Rightarrow> 'a \<Rightarrow> bool" where
  "array_includes xs x = (x \<in> set xs)"

text \<open>
  The updater that \<^verbatim>\<open>selectedRolesHandler(id)\<close> hands to \<^verbatim>\<open>setSelectedRoles\<close>: the new
  selection, from the previous one.
\<close>

definition selectedRolesHandler :: "'a \<Rightarrow> 'a list \<Rightarrow> 'a list" where
  "selectedRolesHandler ident prevState =
     (if array_includes prevState ident
      then (let selectedRole = prevState;
                index = indexOf selectedRole ident
            in splice1 selectedRole index)
      else prevState @ [ident])"

text \<open>
  The selections the component can hold: the initial \<^verbatim>\<open>[]\<close> followed by any sequence of
  calls of the handler (the only caller of \<^verbatim>\<open>setSelectedRoles\<close>).
\<close>

definition rolesAfter :: "'a list \<Rightarrow> 'a list" where
  "rolesAfter ids = foldl (\<lambda>sel i. selectedRolesHandler i sel) [] ids"

subsection \<open>State, events and payload\<close>

text \<open>
  The generated enums, with the members the component names; a member it does not name
  is carried with its string.
\<close>

datatype AuthType = Jwt | Sso

datatype JWTTokenExpiry = OneHour | OtherExpiry string

datatype SsoServiceType = Google | Auth0 | Azure | Okta | CustomOidc | OtherProvider string

datatype CreatePasswordGenerator = AutomatciGenerate | CreatePassword

datatype CreatePasswordType = Admincreate

text \<open>
  A value inside the \<^verbatim>\<open>config\<close> object of the payload. An object is the list of its
  properties in insertion order.
\<close>

datatype ConfigValue =
  VString string
  | VStrings "string list"
  | VExpiry JWTTokenExpiry
  | VProvider "SsoServiceType option"
  | VObject "(string \<times> ConfigValue) list"

text \<open>
  \<^verbatim>\<open>{...previous, key: v}\<close>: a property that exists keeps its place and takes the new
  value, a new one goes last.
\<close>

fun objectSet :: "(string \<times> 'v) list \<Rightarrow> string \<Rightarrow> 'v \<Rightarrow> (string \<times> 'v) list" where
  "objectSet [] key v = [(key, v)]"
| "objectSet ((k, w) # props) key v =
     (if k = key then (k, v) # props else (k, w) # objectSet props key v)"

text \<open>\<^verbatim>\<open>String.prototype.split\<close> with a separator of one character.\<close>

fun split :: "string \<Rightarrow> char \<Rightarrow> string list" where
  "split [] sep = [[]]"
| "split (c # cs) sep =
     (if c = sep then [] # split cs sep
      else (case split cs sep of
              [] \<Rightarrow> [[c]]
            | piece # pieces \<Rightarrow> (c # piece) # pieces))"

text \<open>Reading index 0 of an array: undefined when the array is empty.\<close>

definition index0 :: "'a list \<Rightarrow> 'a option" where
  "index0 xs = (case xs of [] \<Rightarrow> None | x # rest \<Rightarrow> Some x)"

text \<open>A timer set by \<^verbatim>\<open>setTimeout\<close>: the milliseconds left and what runs then.\<close>

datatype TimerAction = SetGeneratedPassword string

text \<open>
  The payload \<^verbatim>\<open>CreateUserSchema\<close> (fields prefixed \<open>user_\<close>, the state has fields of the
  same names).
\<close>

record AuthenticationMechanism =
  authType :: AuthType
  config :: "(string \<times> ConfigValue) list"

record CreateUserSchema =
  user_description :: "string option"
  user_name :: "string option"
  user_displayName :: string
  user_roles :: "string list option"
  user_teams :: "string list option"
  user_email :: string
  user_isAdmin :: bool
  user_isBot :: bool
  user_password :: string
  user_confirmPassword :: string
  user_createPasswordType :: CreatePasswordType
  user_authenticationMechanism :: "AuthenticationMechanism option"

text \<open>
  The component's state: its \<^verbatim>\<open>useState\<close> slots under their names; the content of the
  description editor (\<^verbatim>\<open>markdownRef.current?.getEditorContent()\<close>); the pending timers;
  the log of the calls of \<^verbatim>\<open>showErrorToast\<close> and of the prop \<^verbatim>\<open>onSave\<close>; and the store
  of the form library, which holds for the name of each form item the value of its
  input: undefined, here \<open>None\<close>, until the input is changed or \<^verbatim>\<open>form.setFieldsValue\<close>
  sets it. The rules of the form read the store, \<^verbatim>\<open>handleSave\<close> reads the state.
\<close>

record 'err CreateUserState =
  email :: string
  displayName :: string
  isAdmin :: bool
  isBot :: bool
  selectedRoles :: "string option list"
  selectedTeams :: "string option list"
  password :: string
  confirmPassword :: string
  passwordGenerator :: CreatePasswordGenerator
  generatedPassword :: string
  isPasswordGenerating :: bool
  authMechanism :: AuthType
  tokenExpiry :: JWTTokenExpiry
  ssoClientConfig :: "(string \<times> ConfigValue) list"
  editorContent :: "string option"
  timers :: "(nat \<times> TimerAction) list"
  toasts :: "'err list"
  saved :: "CreateUserSchema list"
  formStore :: "string \<Rightarrow> string option"

text \<open>
  What the component takes from outside: the prop \<^verbatim>\<open>forceBot\<close>, the provider of the
  authentication context (\<^verbatim>\<open>authConfig?.provider\<close>), and the two tests on an e-mail
  address that are not among the sources: the form library's \<^verbatim>\<open>type: 'email'\<close> and the
  pattern \<^verbatim>\<open>validEmailRegEx\<close>.
\<close>

record CreateUserEnv =
  forceBot :: bool
  provider :: "SsoServiceType option"
  typeEmail :: "string \<Rightarrow> bool"
  validEmailRegEx :: "string \<Rightarrow> bool"

definition initialState :: "CreateUserEnv \<Rightarrow> 'err CreateUserState" where
  "initialState env =
     \<lparr>email = [], displayName = [], isAdmin = False, isBot = forceBot env,
      selectedRoles = [], selectedTeams = [], password = [], confirmPassword = [],
      passwordGenerator = AutomatciGenerate, generatedPassword = [],
      isPasswordGenerating = False, authMechanism = Jwt, tokenExpiry = OneHour,
      ssoClientConfig = [], editorContent = None, timers = [], toasts = [], saved = [],
      formStore = (\<lambda>item. None)\<rparr>"

text \<open>
  A change event: the \<^verbatim>\<open>name\<close> and the \<^verbatim>\<open>value\<close> of its target. Text inputs send a
  string, the radio group (the only sender named \<^verbatim>\<open>passwordGenerator\<close>) a member of
  \<^verbatim>\<open>CreatePasswordGenerator\<close>.
\<close>

datatype ChangeEvent =
  InputChange string string
  | RadioChange string CreatePasswordGenerator

fun handleOnChange :: "ChangeEvent \<Rightarrow> 'err CreateUserState \<Rightarrow> 'err CreateUserState" where
  "handleOnChange (InputChange eleName v) st =
     (if eleName = ''email'' then st\<lparr>email := v\<rparr>
      else if eleName = ''displayName'' then st\<lparr>displayName := v\<rparr>
      else if eleName = ''secretKey''
        then st\<lparr>ssoClientConfig := objectSet (ssoClientConfig st) ''secretKey'' (VString v)\<rparr>
      else if eleName = ''audience''
        then st\<lparr>ssoClientConfig := objectSet (ssoClientConfig st) ''audience'' (VString v)\<rparr>
      else if eleName = ''clientId''
        then st\<lparr>ssoClientConfig := objectSet (ssoClientConfig st) ''clientId'' (VString v)\<rparr>
      else if eleName = ''domain''
        then st\<lparr>ssoClientConfig := objectSet (ssoClientConfig st) ''domain'' (VString v)\<rparr>
      else if eleName = ''clientSecret''
        then st\<lparr>ssoClientConfig := objectSet (ssoClientConfig st) ''clientSecret'' (VString v)\<rparr>
      else if eleName = ''authority''
        then st\<lparr>ssoClientConfig := objectSet (ssoClientConfig st) ''authority'' (VString v)\<rparr>
      else if eleName = ''scopes''
        then st\<lparr>ssoClientConfig := objectSet (ssoClientConfig st) ''scopes''
               (VStrings (if v \<noteq> [] then split v (CHR '','') else []))\<rparr>
      else if eleName = ''privateKey''
        then st\<lparr>ssoClientConfig := objectSet (ssoClientConfig st) ''privateKey'' (VString v)\<rparr>
      else if eleName = ''orgURL''
        then st\<lparr>ssoClientConfig := objectSet (ssoClientConfig st) ''orgURL'' (VString v)\<rparr>
      else if eleName = ''oktaEmail''
        then st\<lparr>ssoClientConfig := objectSet (ssoClientConfig st) ''email'' (VString v)\<rparr>
      else if eleName = ''tokenEndpoint''
        then st\<lparr>ssoClientConfig := objectSet (ssoClientConfig st) ''tokenEndpoint'' (VString v)\<rparr>
      else if eleName = ''password'' then st\<lparr>password := v\<rparr>
      else if eleName = ''confirmPassword'' then st\<lparr>confirmPassword := v\<rparr>
      else st)"
| "handleOnChange (RadioChange eleName g) st =
     (if eleName = ''passwordGenerator'' then st\<lparr>passwordGenerator := g\<rparr> else st)"

text \<open>
  A change of the text input of a form item: the item, which has the name of its input,
  puts the value in the store, and the input's own \<^verbatim>\<open>onChange\<close>, \<^verbatim>\<open>handleOnChange\<close>,
  runs on the event.
\<close>

definition inputOnChange :: "string \<Rightarrow> string \<Rightarrow> 'err CreateUserState \<Rightarrow> 'err CreateUserState" where
  "inputOnChange item v st =
     handleOnChange (InputChange item v) (st\<lparr>formStore := (formStore st)(item \<mapsto> v)\<rparr>)"

text \<open>The \<^verbatim>\<open>onChange\<close> of the select of the authentication mechanism.\<close>

definition setAuthMechanism :: "AuthType \<Rightarrow> 'err CreateUserState \<Rightarrow> 'err CreateUserState" where
  "setAuthMechanism v st = st\<lparr>authMechanism := v\<rparr>"

subsection \<open>Generating a password\<close>





subsection \<open>Saving\<close>

text \<open>The local \<^verbatim>\<open>userProfile\<close> of \<^verbatim>\<open>handleSave\<close>.\<close>

definition userProfile :: "CreateUserEnv \<Rightarrow> 'err CreateUserState \<Rightarrow> CreateUserSchema" where
  "userProfile env st =
     (let isPasswordGenerated = (passwordGenerator st = AutomatciGenerate);
          validRole = map the (filter (\<lambda>i. i \<noteq> None) (selectedRoles st));
          validTeam = map the (filter (\<lambda>i. i \<noteq> None) (selectedTeams st))
      in \<lparr>user_description =
            (case editorContent st of
               None \<Rightarrow> None
             | Some content \<Rightarrow> if content = [] then None else Some content),
          user_name = index0 (split (email st) (CHR ''@'')),
          user_displayName = displayName st,
          user_roles = (if length validRole \<noteq> 0 then Some validRole else None),
          user_teams = (if length validTeam \<noteq> 0 then Some validTeam else None),
          user_email = email st,
          user_isAdmin = isAdmin st,
          user_isBot = isBot st,
          user_password = (if isPasswordGenerated then generatedPassword st else password st),
          user_confirmPassword =
            (if isPasswordGenerated then generatedPassword st else confirmPassword st),
          user_createPasswordType = Admincreate,
          user_authenticationMechanism =
            (if forceBot env
             then Some \<lparr>authType = authMechanism st,
                        config =
                          (if authMechanism st = Jwt
                           then [(''JWTTokenExpiry'', VExpiry (tokenExpiry st))]
                           else [(''ssoServiceType'', VProvider (provider env)),
                                 (''authConfig'', VObject (ssoClientConfig st))])\<rparr>
             else None)\<rparr>)"

definition handleSave :: "CreateUserEnv \<Rightarrow> 'err CreateUserState \<Rightarrow> 'err CreateUserState" where
  "handleSave env st = st\<lparr>saved := saved st @ [userProfile env st]\<rparr>"

subsection \<open>The rules of the form\<close>

text \<open>
  The validator of the confirmation item: the rejection's message, or nothing when it
  resolves. Its \<^verbatim>\<open>value\<close> is the store's value of the item, undefined while the input
  is untouched; \<^verbatim>\<open>password\<close> is the state; \<^verbatim>\<open>!==\<close> holds of undefined and any string.
\<close>

definition confirmPasswordValidator :: "string \<Rightarrow> string option \<Rightarrow> string option" where
  "confirmPasswordValidator pwd v =
     (if v \<noteq> Some pwd then Some ''Password doesn't match'' else None)"

datatype UserField =
  EmailField
  | SsoField string
  | PasswordField
  | ConfirmPasswordField
  | GeneratedPasswordField

text \<open>\<^verbatim>\<open>required: true\<close> on the value of a text item: it fails undefined and empty.\<close>

definition requiredRule :: "string option \<Rightarrow> bool" where
  "requiredRule v = (case v of None \<Rightarrow> False | Some s \<Rightarrow> s \<noteq> [])"

text \<open>
  The e-mail item: \<^verbatim>\<open>required\<close> with \<^verbatim>\<open>type: 'email'\<close>, and the pattern.
\<close>

definition emailRules :: "CreateUserEnv \<Rightarrow> 'err CreateUserState \<Rightarrow> UserField list" where
  "emailRules env st =
     (case formStore st ''email'' of
        None \<Rightarrow> [EmailField]
      | Some s \<Rightarrow>
          if s = [] \<or> \<not> typeEmail env s \<or> \<not> validEmailRegEx env s
          then [EmailField] else [])"

text \<open>A required text item of the credentials.\<close>

definition requiredText :: "'err CreateUserState \<Rightarrow> string \<Rightarrow> UserField list" where
  "requiredText st item = (if requiredRule (formStore st item) then [] else [SsoField item])"

text \<open>
  The required items \<^verbatim>\<open>getSSOConfig\<close> renders for the provider; the Okta e-mail is of
  \<^verbatim>\<open>type: 'email'\<close> too.
\<close>

definition ssoRules :: "CreateUserEnv \<Rightarrow> 'err CreateUserState \<Rightarrow> UserField list" where
  "ssoRules env st =
     (case provider env of
        Some Google \<Rightarrow> requiredText st ''secretKey''
      | Some Auth0 \<Rightarrow>
          requiredText st ''secretKey'' @
          requiredText st ''clientId'' @
          requiredText st ''domain''
      | Some Azure \<Rightarrow>
          requiredText st ''clientSecret'' @
          requiredText st ''clientId'' @
          requiredText st ''authority'' @
          requiredText st ''scopes''
      | Some Okta \<Rightarrow>
          requiredText st ''privateKey'' @
          requiredText st ''clientId'' @
          requiredText st ''orgURL'' @
          (case formStore st ''oktaEmail'' of
             None \<Rightarrow> [SsoField ''oktaEmail'']
           | Some s \<Rightarrow>
               if s = [] \<or> \<not> typeEmail env s then [SsoField ''oktaEmail''] else [])
      | Some CustomOidc \<Rightarrow>
          requiredText st ''secretKey'' @
          requiredText st ''clientId'' @
          requiredText st ''tokenEndpoint''
      | _ \<Rightarrow> [])"

text \<open>
  The items of the bot form. The validators of the two selects reject a falsy value
  only, which a member of their enum never is, so they add nothing.
\<close>

definition botRules :: "CreateUserEnv \<Rightarrow> 'err CreateUserState \<Rightarrow> UserField list" where
  "botRules env st =
     (if forceBot env \<and> authMechanism st = Sso then ssoRules env st else [])"

text \<open>
  The password items: in the mode \<^verbatim>\<open>CreatePassword\<close> the required password and the
  required confirmation with its validator, otherwise the required generated password.
\<close>

definition passwordRules :: "'err CreateUserState \<Rightarrow> UserField list" where
  "passwordRules st =
     (if passwordGenerator st = CreatePassword
      then (if requiredRule (formStore st ''password'') then [] else [PasswordField]) @
           (if requiredRule (formStore st ''confirmPassword'') \<and>
               confirmPasswordValidator (password st) (formStore st ''confirmPassword'') = None
            then [] else [ConfirmPasswordField])
      else (if requiredRule (formStore st ''generatedPassword'') then []
            else [GeneratedPasswordField]))"

definition validateUserForm :: "CreateUserEnv \<Rightarrow> 'err CreateUserState \<Rightarrow> UserField list" where
  "validateUserForm env st = emailRules env st @ botRules env st @ passwordRules st"

text \<open>
  Pressing the create button: the form library calls \<^verbatim>\<open>onFinish\<close>, which is
  \<^verbatim>\<open>handleSave\<close>, when no rule fails, and does not call it otherwise.
\<close>

definition submitUserForm :: "CreateUserEnv \<Rightarrow> 'err CreateUserState \<Rightarrow> 'err CreateUserState" where
  "submitUserForm env st =
     (if validateUserForm env st = [] then handleSave env st else st)"

section \<open>Properties of the status modal\<close>

subsection \<open>The composed request\<close>


lemma updatedData_Resolved:
  "testCaseResolutionStatusType data = Some Resolved \<Longrightarrow>
   updatedData env watched data =
     Inr (data\<lparr>testCaseReference := Some (testCaseFqn env),
               testCaseResolutionStatusDetails :=
                 Some ((case testCaseResolutionStatusDetails data of
                          None \<Rightarrow> emptyDetails
                        | Some d \<Rightarrow> d)
                       \<lparr>resolvedBy :=
                          map_option (\<lambda>u. getEntityReferenceFromEntity env u (EntityType_USER env))
                            (currentUser env)\<rparr>)\<rparr>)"
  by (simp add: updatedData_def Let_def split: option.splits)

lemma updatedData_Assigned_array:
  "testCaseResolutionStatusType data = Some Assigned \<Longrightarrow>
   updatedData env (AssigneeArray (a # rest)) data =
     Inr (data\<lparr>testCaseReference := Some (testCaseFqn env),
               testCaseResolutionStatusDetails :=
                 Some ((case testCaseResolutionStatusDetails data of
                          None \<Rightarrow> emptyDetails
                        | Some d \<Rightarrow> d)
                       \<lparr>assignee :=
                          AssigneeEntity
                            \<lparr>ref_id = sel_value a, ref_type = EntityType_USER env,
                             ref_name = sel_name a, ref_displayName = sel_displayName a\<rparr>\<rparr>)\<rparr>)"
  by (simp add: updatedData_def Let_def)

lemma tryPost_first: "\<exists>rest. tryPost env req = PostStatus req # rest"
  by (simp add: tryPost_def split: sum.splits option.splits)

lemma handleFormSubmit_settled:
  "updatedData env (updatedAssignees (formValues st)) data = Inr req \<Longrightarrow>
   handleFormSubmit env st data =
     (st\<lparr>isLoading := False, calls := calls st @ tryPost env req\<rparr>, None)"
  by (simp add: handleFormSubmit_def Let_def)

lemma handleFormSubmit_posts:
  assumes "updatedData env (updatedAssignees (formValues st)) data = Inr req"
  shows "\<exists>rest. calls (fst (handleFormSubmit env st data)) = calls st @ PostStatus req # rest"
proof -
  from tryPost_first obtain rest where "tryPost env req = PostStatus req # rest" ..
  with handleFormSubmit_settled [OF assms] show ?thesis by simp
qed

lemma getFieldsValue_status:
  "testCaseResolutionStatusType (getFieldsValue store) = testCaseResolutionStatusType store"
  by (simp add: getFieldsValue_def Let_def)


lemma validate_blocks_assignee:
  "testCaseResolutionStatusType store = Some Assigned \<Longrightarrow>
   updatedAssignees store = AssigneeUndefined \<or> updatedAssignees store = AssigneeArray [] \<Longrightarrow>
   validateFields store \<noteq> []"
  by (auto simp: validateFields_def updatedAssignees_def getFieldsValue_def Let_def
      emptyDetails_def split: option.splits)

lemma validate_assigned_array:
  "testCaseResolutionStatusType store = Some Assigned \<Longrightarrow>
   updatedAssignees store = AssigneeArray (a # rest) \<Longrightarrow>
   validateFields store = []"
  by (auto simp: validateFields_def updatedAssignees_def getFieldsValue_def Let_def
      emptyDetails_def split: option.splits)

subsection \<open>Claims on the status modal\<close>

text \<open>
  C3. The status options follow the existing status: when its
  \<^verbatim>\<open>testCaseResolutionStatusType\<close> is \<^verbatim>\<open>Assigned\<close> the options offered are exactly
  \<^verbatim>\<open>[Assigned, Resolved]\<close>; for every other existing status, and when there is none, they
  are all the values of the enum, in the enum's order. Each option's label is its value.
\<close>

theorem statusOptions_offered:
  "(dataStatusType data = Some Assigned \<longrightarrow>
      map opt_value (statusOptions enumValues data) = [Assigned, Resolved]) \<and>
   (dataStatusType data \<noteq> Some Assigned \<longrightarrow>
      map opt_value (statusOptions enumValues data) = enumValues) \<and>
   map opt_label (statusOptions enumValues data) = map opt_value (statusOptions enumValues data)"
  by (simp add: statusOptions_def Let_def comp_def)

theorem statusOptions_offered_witness:
  "map opt_value
     (statusOptions [OtherStatus ''Ack'', Assigned, OtherStatus ''InProgress'', OtherStatus ''New'', Resolved]
        (Some \<lparr>testCaseResolutionStatusType = Some Assigned, testCaseReference = None,
                testCaseResolutionStatusDetails = (None :: unit StatusDetails option)\<rparr>))
     = [Assigned, Resolved] \<and>
   map opt_value
     (statusOptions [OtherStatus ''Ack'', Assigned, OtherStatus ''InProgress'', OtherStatus ''New'', Resolved]
        (None :: unit CreateTestCaseResolutionStatus option))
     = [OtherStatus ''Ack'', Assigned, OtherStatus ''InProgress'', OtherStatus ''New'', Resolved]"
proof -
  have prior:
    "dataStatusType (Some \<lparr>testCaseResolutionStatusType = Some Assigned, testCaseReference = None,
       testCaseResolutionStatusDetails = (None :: unit StatusDetails option)\<rparr>) = Some Assigned"
    by (simp add: dataStatusType_def)
  have absent: "dataStatusType (None :: unit CreateTestCaseResolutionStatus option) \<noteq> Some Assigned"
    by (simp add: dataStatusType_def)
  have restricted: "map opt_value
     (statusOptions [OtherStatus ''Ack'', Assigned, OtherStatus ''InProgress'', OtherStatus ''New'', Resolved]
        (Some \<lparr>testCaseResolutionStatusType = Some Assigned, testCaseReference = None,
                testCaseResolutionStatusDetails = (None :: unit StatusDetails option)\<rparr>))
     = [Assigned, Resolved]"
    by (rule statusOptions_offered [THEN conjunct1, THEN mp, OF prior])
  have everything: "map opt_value
     (statusOptions [OtherStatus ''Ack'', Assigned, OtherStatus ''InProgress'', OtherStatus ''New'', Resolved]
        (None :: unit CreateTestCaseResolutionStatus option))
     = [OtherStatus ''Ack'', Assigned, OtherStatus ''InProgress'', OtherStatus ''New'', Resolved]"
    by (rule statusOptions_offered [THEN conjunct2, THEN conjunct1, THEN mp, OF absent])
  from restricted everything show ?thesis by (rule conjI)
qed

text \<open>
  C2. A submission with status \<^verbatim>\<open>Resolved\<close>, failure reason \<open>r\<close> and comment \<open>c\<close> posts a
  request whose details carry that reason and that comment, and whose \<^verbatim>\<open>resolvedBy\<close> is
  the reference \<^verbatim>\<open>getEntityReferenceFromEntity\<close> makes of the current user with
  \<^verbatim>\<open>EntityType.USER\<close> (and is unset when the store has no current user).
\<close>

theorem resolved_request:
  assumes "testCaseResolutionStatusType data = Some Resolved"
    and "testCaseResolutionStatusDetails data = Some d"
    and "testCaseFailureReason d = Some r"
    and "testCaseFailureComment d = Some c"
  shows "\<exists>req det rest.
           calls (fst (handleFormSubmit env st data)) = calls st @ PostStatus req # rest \<and>
           testCaseResolutionStatusType req = Some Resolved \<and>
           testCaseReference req = Some (testCaseFqn env) \<and>
           testCaseResolutionStatusDetails req = Some det \<and>
           testCaseFailureReason det = Some r \<and>
           testCaseFailureComment det = Some c \<and>
           resolvedBy det =
             map_option (\<lambda>u. getEntityReferenceFromEntity env u (EntityType_USER env))
               (currentUser env)"
proof -
  let ?by = "map_option (\<lambda>u. getEntityReferenceFromEntity env u (EntityType_USER env)) (currentUser env)"
  let ?req = "data\<lparr>testCaseReference := Some (testCaseFqn env),
                     testCaseResolutionStatusDetails := Some (d\<lparr>resolvedBy := ?by\<rparr>)\<rparr>"
  from assms(1,2) have composed: "updatedData env (updatedAssignees (formValues st)) data = Inr ?req"
    by (simp add: updatedData_Resolved)
  from handleFormSubmit_posts [OF composed] obtain rest
    where "calls (fst (handleFormSubmit env st data)) = calls st @ PostStatus ?req # rest" ..
  with assms show ?thesis by simp
qed

theorem resolved_request_witness:
  "\<exists>req det rest.
     calls (fst (handleFormSubmit
        \<lparr>testCaseFqn = ''suite.case'', currentUser = Some ''alice'',
         getEntityReferenceFromEntity =
           (\<lambda>u t. \<lparr>ref_id = u, ref_type = t, ref_name = Some u, ref_displayName = None\<rparr>),
         EntityType_USER = ''user'',
         postTestCaseIncidentStatus = (Inr :: string CreateTestCaseResolutionStatus \<Rightarrow> unit + string CreateTestCaseResolutionStatus),
      onSubmit = (\<lambda>response. None), onCancel = None\<rparr>
        \<lparr>isLoading = False,
         formValues = \<lparr>testCaseResolutionStatusType = Some Resolved, testCaseReference = None,
           testCaseResolutionStatusDetails =
             Some \<lparr>testCaseFailureReason = Some ''Duplicate'', testCaseFailureComment = Some ''dup of X'',
                   assignee = AssigneeUndefined, resolvedBy = None\<rparr>\<rparr>,
         calls = []\<rparr>
        \<lparr>testCaseResolutionStatusType = Some Resolved, testCaseReference = None,
           testCaseResolutionStatusDetails =
             Some \<lparr>testCaseFailureReason = Some ''Duplicate'', testCaseFailureComment = Some ''dup of X'',
                   assignee = AssigneeUndefined, resolvedBy = None\<rparr>\<rparr>))
       = PostStatus req # rest \<and>
     testCaseResolutionStatusDetails req = Some det \<and>
     testCaseFailureReason det = Some ''Duplicate'' \<and>
     testCaseFailureComment det = Some ''dup of X'' \<and>
     resolvedBy det =
       Some \<lparr>ref_id = ''alice'', ref_type = ''user'', ref_name = Some ''alice'', ref_displayName = None\<rparr>"
proof -
  let ?d = "\<lparr>testCaseFailureReason = Some ''Duplicate'', testCaseFailureComment = Some ''dup of X'',
             assignee = AssigneeUndefined, resolvedBy = None\<rparr>"
  let ?data = "\<lparr>testCaseResolutionStatusType = Some Resolved, testCaseReference = None,
                testCaseResolutionStatusDetails = Some ?d\<rparr>"
  let ?env = "\<lparr>testCaseFqn = ''suite.case'', currentUser = Some ''alice'',
         getEntityReferenceFromEntity =
           (\<lambda>u t. \<lparr>ref_id = u, ref_type = t, ref_name = Some u, ref_displayName = None\<rparr>),
         EntityType_USER = ''user'',
         postTestCaseIncidentStatus = (Inr :: string CreateTestCaseResolutionStatus \<Rightarrow> unit + string CreateTestCaseResolutionStatus),
      onSubmit = (\<lambda>response. None), onCancel = None\<rparr>"
  let ?st = "\<lparr>isLoading = False, formValues = ?data, calls = []\<rparr>"
  have status: "testCaseResolutionStatusType ?data = Some Resolved" by simp
  have details: "testCaseResolutionStatusDetails ?data = Some ?d" by simp
  have reason: "testCaseFailureReason ?d = Some ''Duplicate''" by simp
  have comment: "testCaseFailureComment ?d = Some ''dup of X''" by simp
  from resolved_request [OF status details reason comment, of ?env ?st]
  obtain req det rest where
    "calls (fst (handleFormSubmit ?env ?st ?data)) = calls ?st @ PostStatus req # rest"
    "testCaseResolutionStatusDetails req = Some det"
    "testCaseFailureReason det = Some ''Duplicate''"
    "testCaseFailureComment det = Some ''dup of X''"
    "resolvedBy det =
       map_option (\<lambda>u. getEntityReferenceFromEntity ?env u (EntityType_USER ?env)) (currentUser ?env)"
    by blast
  then show ?thesis by simp
qed

text \<open>
  C1 (as amended). With the status \<^verbatim>\<open>Assigned\<close> selected, the submission is blocked, and
  nothing is posted, while the assignee field is unset or holds an empty list; when the
  field holds a non-empty list of selected assignees, the request posted carries as
  assignee a reference built from the first of them: its id is that element's
  \<^verbatim>\<open>value\<close>, its name and display name are that element's, and its type is
  \<^verbatim>\<open>EntityType.USER\<close>.
\<close>

theorem assigned_submission:
  assumes "testCaseResolutionStatusType (formValues st) = Some Assigned"
  shows "(updatedAssignees (formValues st) = AssigneeUndefined \<or>
          updatedAssignees (formValues st) = AssigneeArray []
          \<longrightarrow> submitStatusForm env st = (st, None)) \<and>
         (\<forall>first others.
            updatedAssignees (formValues st) = AssigneeArray (first # others) \<longrightarrow>
            (\<exists>req det rest.
               calls (fst (submitStatusForm env st)) = calls st @ PostStatus req # rest \<and>
               testCaseResolutionStatusDetails req = Some det \<and>
               assignee det =
                 AssigneeEntity
                   \<lparr>ref_id = sel_value first, ref_type = EntityType_USER env,
                    ref_name = sel_name first, ref_displayName = sel_displayName first\<rparr>))"
proof (intro conjI allI impI)
  assume "updatedAssignees (formValues st) = AssigneeUndefined \<or>
          updatedAssignees (formValues st) = AssigneeArray []"
  with assms have "validateFields (formValues st) \<noteq> []"
    by (rule validate_blocks_assignee)
  then show "submitStatusForm env st = (st, None)"
    by (simp add: submitStatusForm_def)
next
  fix first others
  assume array: "updatedAssignees (formValues st) = AssigneeArray (first # others)"
  let ?ref = "\<lparr>ref_id = sel_value first, ref_type = EntityType_USER env,
                ref_name = sel_name first, ref_displayName = sel_displayName first\<rparr>"
  let ?data = "getFieldsValue (formValues st)"
  let ?det = "(case testCaseResolutionStatusDetails ?data of
                None \<Rightarrow> emptyDetails | Some d \<Rightarrow> d)\<lparr>assignee := AssigneeEntity ?ref\<rparr>"
  let ?req = "?data\<lparr>testCaseReference := Some (testCaseFqn env),
                testCaseResolutionStatusDetails := Some ?det\<rparr>"
  from assms array have valid: "validateFields (formValues st) = []"
    by (rule validate_assigned_array)
  from assms have "testCaseResolutionStatusType ?data = Some Assigned"
    by (simp add: getFieldsValue_status)
  with array
  have "updatedData env (updatedAssignees (formValues st)) ?data = Inr ?req"
    by (simp add: updatedData_Assigned_array)
  from handleFormSubmit_posts [OF this] obtain rest where
    "calls (fst (handleFormSubmit env st ?data)) = calls st @ PostStatus ?req # rest" ..
  with valid have "calls (fst (submitStatusForm env st)) = calls st @ PostStatus ?req # rest"
    by (simp add: submitStatusForm_def)
  moreover have "testCaseResolutionStatusDetails ?req = Some ?det" by simp
  moreover have "assignee ?det = AssigneeEntity ?ref" by simp
  ultimately show "\<exists>req det rest.
               calls (fst (submitStatusForm env st)) = calls st @ PostStatus req # rest \<and>
               testCaseResolutionStatusDetails req = Some det \<and>
               assignee det = AssigneeEntity ?ref"
    by blast
qed

theorem assigned_submission_witness:
  "submitStatusForm
     \<lparr>testCaseFqn = ''suite.case'', currentUser = (None :: string option),
      getEntityReferenceFromEntity =
        (\<lambda>u t. \<lparr>ref_id = u, ref_type = t, ref_name = None, ref_displayName = None\<rparr>),
      EntityType_USER = ''user'',
      postTestCaseIncidentStatus =
        (Inr :: string CreateTestCaseResolutionStatus \<Rightarrow> unit + string CreateTestCaseResolutionStatus),
      onSubmit = (\<lambda>response. None), onCancel = None\<rparr>
     \<lparr>isLoading = False,
      formValues =
        \<lparr>testCaseResolutionStatusType = Some Assigned, testCaseReference = None,
         testCaseResolutionStatusDetails =
           Some \<lparr>testCaseFailureReason = None, testCaseFailureComment = None,
                 assignee = AssigneeArray [], resolvedBy = None\<rparr>\<rparr>,
      calls = []\<rparr>
   = (\<lparr>isLoading = False,
      formValues =
        \<lparr>testCaseResolutionStatusType = Some Assigned, testCaseReference = None,
         testCaseResolutionStatusDetails =
           Some \<lparr>testCaseFailureReason = None, testCaseFailureComment = None,
                 assignee = AssigneeArray [], resolvedBy = None\<rparr>\<rparr>,
      calls = []\<rparr>, None) \<and>
   (\<exists>req det rest.
      calls (fst (submitStatusForm
        \<lparr>testCaseFqn = ''suite.case'', currentUser = (None :: string option),
         getEntityReferenceFromEntity =
           (\<lambda>u t. \<lparr>ref_id = u, ref_type = t, ref_name = None, ref_displayName = None\<rparr>),
         EntityType_USER = ''user'',
         postTestCaseIncidentStatus =
           (Inr :: string CreateTestCaseResolutionStatus \<Rightarrow> unit + string CreateTestCaseResolutionStatus),
      onSubmit = (\<lambda>response. None), onCancel = None\<rparr>
        \<lparr>isLoading = False,
         formValues =
           \<lparr>testCaseResolutionStatusType = Some Assigned, testCaseReference = None,
            testCaseResolutionStatusDetails =
              Some \<lparr>testCaseFailureReason = None, testCaseFailureComment = None,
                    assignee =
                      AssigneeArray
                        [\<lparr>sel_name = Some ''alice'', sel_displayName = Some ''Alice'', sel_value = ''u1''\<rparr>,
                         \<lparr>sel_name = Some ''bob'', sel_displayName = None, sel_value = ''u2''\<rparr>],
                    resolvedBy = None\<rparr>\<rparr>,
         calls = []\<rparr>))
        = PostStatus req # rest \<and>
      testCaseResolutionStatusDetails req = Some det \<and>
      assignee det =
        AssigneeEntity
          \<lparr>ref_id = ''u1'', ref_type = ''user'', ref_name = Some ''alice'',
           ref_displayName = Some ''Alice''\<rparr>)"
proof -
  let ?env = "\<lparr>testCaseFqn = ''suite.case'', currentUser = (None :: string option),
      getEntityReferenceFromEntity =
        (\<lambda>u t. \<lparr>ref_id = u, ref_type = t, ref_name = None, ref_displayName = None\<rparr>),
      EntityType_USER = ''user'',
      postTestCaseIncidentStatus =
        (Inr :: string CreateTestCaseResolutionStatus \<Rightarrow> unit + string CreateTestCaseResolutionStatus),
      onSubmit = (\<lambda>response. None), onCancel = None\<rparr>"
  let ?none = "\<lparr>isLoading = False,
      formValues =
        \<lparr>testCaseResolutionStatusType = Some Assigned, testCaseReference = None,
         testCaseResolutionStatusDetails =
           Some \<lparr>testCaseFailureReason = (None :: string option), testCaseFailureComment = None,
                 assignee = AssigneeArray [], resolvedBy = None\<rparr>\<rparr>,
      calls = ([] :: (string, string CreateTestCaseResolutionStatus, unit) ModalCall list)\<rparr>"
  let ?alice = "\<lparr>sel_name = Some ''alice'', sel_displayName = Some ''Alice'', sel_value = ''u1''\<rparr>"
  let ?bob = "\<lparr>sel_name = Some ''bob'', sel_displayName = None, sel_value = ''u2''\<rparr>"
  let ?two = "\<lparr>isLoading = False,
         formValues =
           \<lparr>testCaseResolutionStatusType = Some Assigned, testCaseReference = None,
            testCaseResolutionStatusDetails =
              Some \<lparr>testCaseFailureReason = (None :: string option), testCaseFailureComment = None,
                    assignee = AssigneeArray [?alice, ?bob], resolvedBy = None\<rparr>\<rparr>,
         calls = ([] :: (string, string CreateTestCaseResolutionStatus, unit) ModalCall list)\<rparr>"
  have status_none: "testCaseResolutionStatusType (formValues ?none) = Some Assigned" by simp
  have empty: "updatedAssignees (formValues ?none) = AssigneeUndefined \<or>
               updatedAssignees (formValues ?none) = AssigneeArray []"
    by (simp add: updatedAssignees_def getFieldsValue_def Let_def)
  have blocked: "submitStatusForm ?env ?none = (?none, None)"
    by (rule assigned_submission [OF status_none, THEN conjunct1, THEN mp, OF empty])
  have status_two: "testCaseResolutionStatusType (formValues ?two) = Some Assigned" by simp
  have array: "updatedAssignees (formValues ?two) = AssigneeArray (?alice # [?bob])"
    by (simp add: updatedAssignees_def getFieldsValue_def Let_def)
  from assigned_submission [OF status_two, THEN conjunct2, THEN spec, THEN spec, THEN mp, OF array, of ?env]
  obtain req det rest where
    "calls (fst (submitStatusForm ?env ?two)) = calls ?two @ PostStatus req # rest"
    "testCaseResolutionStatusDetails req = Some det"
    "assignee det =
        AssigneeEntity
          \<lparr>ref_id = sel_value ?alice, ref_type = EntityType_USER ?env, ref_name = sel_name ?alice,
           ref_displayName = sel_displayName ?alice\<rparr>"
    by blast
  then have "\<exists>req det rest.
      calls (fst (submitStatusForm ?env ?two)) = PostStatus req # rest \<and>
      testCaseResolutionStatusDetails req = Some det \<and>
      assignee det =
        AssigneeEntity
          \<lparr>ref_id = ''u1'', ref_type = ''user'', ref_name = Some ''alice'',
           ref_displayName = Some ''Alice''\<rparr>"
    by simp
  with blocked show ?thesis by (rule conjI)
qed

text \<open>
  The claim as first stated fails when the assignee field holds one entity reference,
  the shape the modal itself stores when it opens on an existing \<^verbatim>\<open>Assigned\<close> status:
  the guard on \<^verbatim>\<open>updatedAssignees.length\<close> is then false, and the reference is posted as
  the form holds it, here with the type \<^verbatim>\<open>team\<close>, not \<^verbatim>\<open>EntityType.USER\<close>.
\<close>

theorem assigned_entity_counterexample:
  "validateFields
     (prepopulate
        (Some \<lparr>testCaseResolutionStatusType = Some Assigned, testCaseReference = None,
               testCaseResolutionStatusDetails =
                 Some \<lparr>testCaseFailureReason = (None :: string option), testCaseFailureComment = None,
                       assignee = AssigneeEntity \<lparr>ref_id = ''t1'', ref_type = ''team'',
                         ref_name = Some ''data'', ref_displayName = None\<rparr>,
                       resolvedBy = None\<rparr>\<rparr>)
        \<lparr>testCaseResolutionStatusType = Some Assigned, testCaseReference = None,
         testCaseResolutionStatusDetails = None\<rparr>) = [] \<and>
   submitStatusForm
     \<lparr>testCaseFqn = ''suite.case'', currentUser = (None :: string option),
      getEntityReferenceFromEntity =
        (\<lambda>u t. \<lparr>ref_id = u, ref_type = t, ref_name = None, ref_displayName = None\<rparr>),
      EntityType_USER = ''user'',
      postTestCaseIncidentStatus =
        (Inr :: string CreateTestCaseResolutionStatus \<Rightarrow> unit + string CreateTestCaseResolutionStatus),
      onSubmit = (\<lambda>response. None), onCancel = None\<rparr>
     \<lparr>isLoading = False,
      formValues =
        prepopulate
          (Some \<lparr>testCaseResolutionStatusType = Some Assigned, testCaseReference = None,
                 testCaseResolutionStatusDetails =
                   Some \<lparr>testCaseFailureReason = None, testCaseFailureComment = None,
                         assignee = AssigneeEntity \<lparr>ref_id = ''t1'', ref_type = ''team'',
                           ref_name = Some ''data'', ref_displayName = None\<rparr>,
                         resolvedBy = None\<rparr>\<rparr>)
          \<lparr>testCaseResolutionStatusType = Some Assigned, testCaseReference = None,
           testCaseResolutionStatusDetails = None\<rparr>,
      calls = []\<rparr>
   = (\<lparr>isLoading = False,
      formValues =
        \<lparr>testCaseResolutionStatusType = Some Assigned, testCaseReference = None,
         testCaseResolutionStatusDetails =
           Some \<lparr>testCaseFailureReason = None, testCaseFailureComment = None,
                 assignee = AssigneeEntity \<lparr>ref_id = ''t1'', ref_type = ''team'',
                   ref_name = Some ''data'', ref_displayName = None\<rparr>,
                 resolvedBy = None\<rparr>\<rparr>,
      calls =
        [PostStatus
           \<lparr>testCaseResolutionStatusType = Some Assigned, testCaseReference = Some ''suite.case'',
            testCaseResolutionStatusDetails =
              Some \<lparr>testCaseFailureReason = None, testCaseFailureComment = None,
                    assignee = AssigneeEntity \<lparr>ref_id = ''t1'', ref_type = ''team'',
                      ref_name = Some ''data'', ref_displayName = None\<rparr>,
                    resolvedBy = None\<rparr>\<rparr>,
         OnSubmit
           \<lparr>testCaseResolutionStatusType = Some Assigned, testCaseReference = Some ''suite.case'',
            testCaseResolutionStatusDetails =
              Some \<lparr>testCaseFailureReason = None, testCaseFailureComment = None,
                    assignee = AssigneeEntity \<lparr>ref_id = ''t1'', ref_type = ''team'',
                      ref_name = Some ''data'', ref_displayName = None\<rparr>,
                    resolvedBy = None\<rparr>\<rparr>,
         OnCancel]\<rparr>, None)"
  by (simp add: submitStatusForm_def validateFields_def handleFormSubmit_def updatedData_def
      updatedAssignees_def getFieldsValue_def tryPost_def prepopulate_def dataAssignee_def
      emptyDetails_def Let_def)




section \<open>Properties of the user form\<close>

subsection \<open>The role toggle\<close>

lemma indexOf_absent: "x \<notin> set xs \<Longrightarrow> indexOf xs x = -1"
  by (induction xs) (auto simp: Let_def)

lemma indexOf_range: "x \<in> set xs \<Longrightarrow> 0 \<le> indexOf xs x \<and> indexOf xs x < int (length xs)"
  by (induction xs) (auto simp: Let_def)

lemma splice1_Cons_Suc:
  "0 \<le> i \<Longrightarrow> splice1 (y # ys) (i + 1) = y # splice1 ys i"
  by (simp add: splice1_def Let_def nat_add_distrib min_def)

lemma splice1_indexOf: "x \<in> set xs \<Longrightarrow> splice1 xs (indexOf xs x) = remove1 x xs"
proof (induction xs)
  case Nil
  then show ?case by simp
next
  case (Cons y ys)
  show ?case
  proof (cases "y = x")
    case True
    then show ?thesis by (simp add: splice1_def)
  next
    case False
    with Cons.prems have mem: "x \<in> set ys" by simp
    from indexOf_range [OF mem] have nonneg: "0 \<le> indexOf ys x" by simp
    from False nonneg have "indexOf (y # ys) x = indexOf ys x + 1"
      by (simp add: Let_def)
    with False nonneg Cons.IH [OF mem] show ?thesis
      by (simp add: splice1_Cons_Suc)
  qed
qed

lemma selectedRolesHandler_eq:
  "selectedRolesHandler x xs = (if x \<in> set xs then remove1 x xs else xs @ [x])"
  by (simp add: selectedRolesHandler_def array_includes_def splice1_indexOf)

lemma selectedRolesHandler_distinct:
  "distinct xs \<Longrightarrow> distinct (selectedRolesHandler x xs)"
  by (simp add: selectedRolesHandler_eq)

lemma selectedRolesHandler_set:
  "distinct xs \<Longrightarrow>
   set (selectedRolesHandler x xs) = (if x \<in> set xs then set xs - {x} else insert x (set xs))"
  by (simp add: selectedRolesHandler_eq)

lemma foldl_toggle_distinct:
  "distinct acc \<Longrightarrow> distinct (foldl (\<lambda>sel i. selectedRolesHandler i sel) acc ids)"
  by (induction ids arbitrary: acc) (simp_all add: selectedRolesHandler_distinct)

lemma rolesAfter_distinct: "distinct (rolesAfter ids)"
  by (simp add: rolesAfter_def foldl_toggle_distinct)

lemma toggle_twice_set:
  "distinct xs \<Longrightarrow> set (selectedRolesHandler x (selectedRolesHandler x xs)) = set xs"
  by (auto simp: selectedRolesHandler_eq)

lemma toggle_twice_absent:
  "x \<notin> set xs \<Longrightarrow> selectedRolesHandler x (selectedRolesHandler x xs) = xs"
  by (simp add: selectedRolesHandler_eq remove1_append)

subsection \<open>Name, credentials, password rules and timers\<close>

lemma index0_split: "index0 (split s sep) = Some (takeWhile (\<lambda>x. x \<noteq> sep) s)"
  by (induction s) (auto simp: index0_def split: list.splits)

lemma takeWhile_before_separator:
  "sep \<notin> set a \<Longrightarrow> takeWhile (\<lambda>x. x \<noteq> sep) (a @ sep # b) = a"
  by (induction a) auto

lemma takeWhile_no_separator:
  "sep \<notin> set s \<Longrightarrow> takeWhile (\<lambda>x. x \<noteq> sep) s = s"
  by (induction s) auto

lemma user_name_userProfile:
  "user_name (userProfile env st) = Some (takeWhile (\<lambda>x. x \<noteq> CHR ''@'') (email st))"
  by (simp add: userProfile_def Let_def index0_split)

lemma objectSet_keys: "fst ` set (objectSet props key v) = insert key (fst ` set props)"
  by (induction props key v rule: objectSet.induct) auto

lemma objectSet_member:
  assumes "(a, b) \<in> set (objectSet props key v)"
  shows "a = key \<or> a \<in> fst ` set props"
proof -
  from assms have "a \<in> fst ` set (objectSet props key v)" by force
  then show ?thesis by (simp add: objectSet_keys)
qed

lemma objectSet_distinct: "distinct (map fst props) \<Longrightarrow> distinct (map fst (objectSet props key v))"
  by (induction props key v rule: objectSet.induct) (auto dest: objectSet_member)

lemma objectSet_map_of: "map_of (objectSet props key v) = (map_of props)(key \<mapsto> v)"
  by (induction props key v rule: objectSet.induct) auto


lemma handleOnChange_authMechanism:
  "authMechanism (handleOnChange e st) = authMechanism st"
  by (cases e) simp_all


lemma handleOnChange_privateKey:
  "ssoClientConfig (handleOnChange (InputChange ''privateKey'' v) st) =
     objectSet (ssoClientConfig st) ''privateKey'' (VString v)"
  by simp

lemma handleOnChange_clientId:
  "ssoClientConfig (handleOnChange (InputChange ''clientId'' v) st) =
     objectSet (ssoClientConfig st) ''clientId'' (VString v)"
  by simp

lemma handleOnChange_orgURL:
  "ssoClientConfig (handleOnChange (InputChange ''orgURL'' v) st) =
     objectSet (ssoClientConfig st) ''orgURL'' (VString v)"
  by simp

lemma handleOnChange_oktaEmail:
  "ssoClientConfig (handleOnChange (InputChange ''oktaEmail'' v) st) =
     objectSet (ssoClientConfig st) ''email'' (VString v)"
  by simp

lemma handleOnChange_okta:
  assumes "n \<in> {''privateKey'', ''clientId'', ''orgURL'', ''oktaEmail''}"
  shows "ssoClientConfig (handleOnChange (InputChange n v) st) =
     objectSet (ssoClientConfig st) (if n = ''oktaEmail'' then ''email'' else n) (VString v)"
proof -
  from assms consider "n = ''privateKey''" | "n = ''clientId''" | "n = ''orgURL''" | "n = ''oktaEmail''"
    by blast
  then show ?thesis
  proof cases
    case 1
    then show ?thesis by (simp only: handleOnChange_privateKey) simp
  next
    case 2
    then show ?thesis by (simp only: handleOnChange_clientId) simp
  next
    case 3
    then show ?thesis by (simp only: handleOnChange_orgURL) simp
  next
    case 4
    then show ?thesis by (simp only: handleOnChange_oktaEmail) simp
  qed
qed


lemma edits_config:
  "\<forall>e \<in> set edits. fst e \<in> {''privateKey'', ''clientId'', ''orgURL'', ''oktaEmail''} \<Longrightarrow>
   ssoClientConfig (foldl (\<lambda>s e. handleOnChange (InputChange (fst e) (snd e)) s) st edits) =
     foldl (\<lambda>c e. objectSet c (if fst e = ''oktaEmail'' then ''email'' else fst e) (VString (snd e)))
       (ssoClientConfig st) edits"
proof (induction edits arbitrary: st)
  case Nil
  show ?case by simp
next
  case (Cons e edits)
  from Cons.prems have first: "fst e \<in> {''privateKey'', ''clientId'', ''orgURL'', ''oktaEmail''}"
    and others: "\<forall>e \<in> set edits. fst e \<in> {''privateKey'', ''clientId'', ''orgURL'', ''oktaEmail''}"
    by simp_all
  from Cons.IH [OF others, of "handleOnChange (InputChange (fst e) (snd e)) st"]
    handleOnChange_okta [OF first, of "snd e" st]
  show ?case by simp
qed

lemma edits_authMechanism:
  "authMechanism (foldl (\<lambda>s e. handleOnChange (InputChange (fst e) (snd e)) s) st edits) =
   authMechanism st"
  by (induction edits arbitrary: st) (simp_all add: handleOnChange_authMechanism)

lemma objectSet_foldl_keys:
  "fst ` set (foldl (\<lambda>c e. objectSet c (k e) (w e)) c0 edits) = fst ` set c0 \<union> k ` set edits"
  by (induction edits arbitrary: c0) (auto simp: objectSet_keys)

lemma objectSet_foldl_distinct:
  "distinct (map fst c0) \<Longrightarrow>
   distinct (map fst (foldl (\<lambda>c e. objectSet c (k e) (w e)) c0 edits))"
  by (induction edits arbitrary: c0) (simp_all add: objectSet_distinct)

lemma objectSet_foldl_map_of:
  "map_of (foldl (\<lambda>c e. objectSet c (k e) (w e)) c0 edits) =
   map_of (rev (map (\<lambda>e. (k e, w e)) edits) @ c0)"
proof (induction edits arbitrary: c0)
  case Nil
  show ?case by simp
next
  case (Cons e edits)
  have "map_of (foldl (\<lambda>c e. objectSet c (k e) (w e)) (objectSet c0 (k e) (w e)) edits) =
        map_of (rev (map (\<lambda>e. (k e, w e)) edits) @ objectSet c0 (k e) (w e))"
    by (rule Cons.IH)
  also have "\<dots> = map_of (objectSet c0 (k e) (w e)) ++ map_of (rev (map (\<lambda>e. (k e, w e)) edits))"
    by (simp only: map_of_append)
  also have "\<dots> = map_of ((k e, w e) # c0) ++ map_of (rev (map (\<lambda>e. (k e, w e)) edits))"
    by (simp add: objectSet_map_of)
  also have "\<dots> = map_of (rev (map (\<lambda>e. (k e, w e)) edits) @ (k e, w e) # c0)"
    by (simp only: map_of_append)
  finally show ?case by simp
qed




lemma mismatch_blocks:
  "passwordGenerator st = CreatePassword \<Longrightarrow>
   formStore st ''confirmPassword'' \<noteq> Some (password st) \<Longrightarrow>
   submitUserForm env st = st"
  by (simp add: submitUserForm_def validateUserForm_def passwordRules_def
      confirmPasswordValidator_def)

lemma match_passes:
  "passwordGenerator st = CreatePassword \<Longrightarrow>
   formStore st ''confirmPassword'' = Some (password st) \<Longrightarrow>
   formStore st ''password'' = Some (password st) \<Longrightarrow>
   password st \<noteq> [] \<Longrightarrow> emailRules env st = [] \<Longrightarrow> botRules env st = [] \<Longrightarrow>
   submitUserForm env st = handleSave env st"
  by (simp add: submitUserForm_def validateUserForm_def passwordRules_def
      confirmPasswordValidator_def requiredRule_def)

subsection \<open>Claims on the user form\<close>

text \<open>
  C10. The role selection never holds an id twice: it starts empty, and the toggle keeps
  a selection free of duplicates so, since it appends an id only when the id is absent
  and removes it otherwise.
\<close>

theorem selectedRoles_no_duplicates:
  "distinct (rolesAfter ids) \<and>
   (distinct sel \<longrightarrow> distinct (selectedRolesHandler i sel))"
  by (simp add: rolesAfter_distinct selectedRolesHandler_distinct)

theorem selectedRoles_no_duplicates_witness:
  "distinct (rolesAfter [Some ''admin'', Some ''steward'', Some ''admin'', None]) \<and>
   distinct (selectedRolesHandler (Some ''steward'') [Some ''admin'', Some ''steward''])"
proof -
  have start: "distinct [Some ''admin'', Some ''steward'']" by simp
  have reachable: "distinct (rolesAfter [Some ''admin'', Some ''steward'', Some ''admin'', None])"
    by (rule selectedRoles_no_duplicates [THEN conjunct1])
  have kept: "distinct (selectedRolesHandler (Some ''steward'') [Some ''admin'', Some ''steward''])"
    by (rule selectedRoles_no_duplicates [THEN conjunct2, THEN mp, OF start])
  from reachable kept show ?thesis by (rule conjI)
qed

text \<open>
  C7. On every selection the form can hold, and on every selection without duplicates,
  toggling an id twice gives back the same set of selected ids: one toggle removes an id
  that is selected and adds one that is not, so the id's membership flips each time and
  no other id is touched. (An id that was absent leaves the list itself unchanged; one
  that was present comes back at the end of the list.)
\<close>

theorem toggle_twice_same_selection:
  "set (selectedRolesHandler i (selectedRolesHandler i (rolesAfter ids))) = set (rolesAfter ids) \<and>
   (i \<in> set (selectedRolesHandler i (rolesAfter ids))) = (i \<notin> set (rolesAfter ids)) \<and>
   set (selectedRolesHandler i (rolesAfter ids)) - {i} = set (rolesAfter ids) - {i} \<and>
   (distinct sel \<longrightarrow> set (selectedRolesHandler i (selectedRolesHandler i sel)) = set sel)"
proof -
  have d: "distinct (rolesAfter ids)" by (rule rolesAfter_distinct)
  then have "set (selectedRolesHandler i (selectedRolesHandler i (rolesAfter ids))) = set (rolesAfter ids)"
    by (rule toggle_twice_set)
  moreover from d have "(i \<in> set (selectedRolesHandler i (rolesAfter ids))) = (i \<notin> set (rolesAfter ids))"
    by (simp add: selectedRolesHandler_set)
  moreover from d have "set (selectedRolesHandler i (rolesAfter ids)) - {i} = set (rolesAfter ids) - {i}"
    by (auto simp: selectedRolesHandler_set)
  moreover have "distinct sel \<longrightarrow> set (selectedRolesHandler i (selectedRolesHandler i sel)) = set sel"
    by (simp add: toggle_twice_set)
  ultimately show ?thesis by simp
qed

theorem toggle_twice_same_selection_witness:
  "set (selectedRolesHandler (Some ''admin'')
         (selectedRolesHandler (Some ''admin'') (rolesAfter [Some ''admin'', Some ''steward''])))
     = set (rolesAfter [Some ''admin'', Some ''steward'']) \<and>
   set (selectedRolesHandler None (selectedRolesHandler None [Some ''steward'', Some ''admin'']))
     = set [Some ''steward'', Some ''admin'']"
proof -
  have start: "distinct [Some ''steward'', Some ''admin'']" by simp
  have reachable: "set (selectedRolesHandler (Some ''admin'')
         (selectedRolesHandler (Some ''admin'') (rolesAfter [Some ''admin'', Some ''steward''])))
     = set (rolesAfter [Some ''admin'', Some ''steward''])"
    by (rule toggle_twice_same_selection [THEN conjunct1])
  have given: "set (selectedRolesHandler None (selectedRolesHandler None [Some ''steward'', Some ''admin'']))
     = set [Some ''steward'', Some ''admin'']"
    by (rule toggle_twice_same_selection
          [THEN conjunct2, THEN conjunct2, THEN conjunct2, THEN mp, OF start])
  from reachable given show ?thesis by (rule conjI)
qed

text \<open>
  C9. The payload's name is the part of the entered e-mail address before its first
  \<^verbatim>\<open>@\<close>, and the whole address when it has none; the display name has no part in it.
  \<^verbatim>\<open>handleSave\<close> hands that payload to \<^verbatim>\<open>onSave\<close>.
\<close>

theorem user_name_from_email:
  "user_name (userProfile env st) = Some (takeWhile (\<lambda>x. x \<noteq> CHR ''@'') (email st)) \<and>
   (\<forall>a b. email st = a @ CHR ''@'' # b \<and> CHR ''@'' \<notin> set a \<longrightarrow>
      user_name (userProfile env st) = Some a) \<and>
   (CHR ''@'' \<notin> set (email st) \<longrightarrow> user_name (userProfile env st) = Some (email st)) \<and>
   user_name (userProfile env (st\<lparr>displayName := d\<rparr>)) = user_name (userProfile env st) \<and>
   saved (handleSave env st) = saved st @ [userProfile env st]"
proof -
  have "\<forall>a b. email st = a @ CHR ''@'' # b \<and> CHR ''@'' \<notin> set a \<longrightarrow>
      user_name (userProfile env st) = Some a"
    by (simp add: user_name_userProfile takeWhile_before_separator)
  moreover have "CHR ''@'' \<notin> set (email st) \<longrightarrow> user_name (userProfile env st) = Some (email st)"
    by (simp add: user_name_userProfile takeWhile_no_separator)
  moreover have "user_name (userProfile env (st\<lparr>displayName := d\<rparr>)) = user_name (userProfile env st)"
    by (simp add: user_name_userProfile)
  moreover have "saved (handleSave env st) = saved st @ [userProfile env st]"
    by (simp add: handleSave_def)
  ultimately show ?thesis by (simp add: user_name_userProfile)
qed

theorem user_name_from_email_witness:
  "user_name
     (userProfile \<lparr>forceBot = False, provider = None,
      typeEmail = (\<lambda>s. CHR ''@'' \<in> set s), validEmailRegEx = (\<lambda>s. CHR ''@'' \<in> set s)\<rparr>
        (handleOnChange (InputChange ''displayName'' ''Boss'')
           (handleOnChange (InputChange ''email'' ''jane.doe@example.com'')
              (initialState \<lparr>forceBot = False, provider = None,
      typeEmail = (\<lambda>s. CHR ''@'' \<in> set s), validEmailRegEx = (\<lambda>s. CHR ''@'' \<in> set s)\<rparr> :: unit CreateUserState))))
   = Some ''jane.doe'' \<and>
   user_name
     (userProfile \<lparr>forceBot = False, provider = None,
      typeEmail = (\<lambda>s. CHR ''@'' \<in> set s), validEmailRegEx = (\<lambda>s. CHR ''@'' \<in> set s)\<rparr>
        (handleOnChange (InputChange ''email'' ''jane.doe'')
           (initialState \<lparr>forceBot = False, provider = None,
      typeEmail = (\<lambda>s. CHR ''@'' \<in> set s), validEmailRegEx = (\<lambda>s. CHR ''@'' \<in> set s)\<rparr> :: unit CreateUserState)))
   = Some ''jane.doe''"
proof -
  let ?env = "\<lparr>forceBot = False, provider = None,
      typeEmail = (\<lambda>s. CHR ''@'' \<in> set s), validEmailRegEx = (\<lambda>s. CHR ''@'' \<in> set s)\<rparr>"
  let ?st = "handleOnChange (InputChange ''displayName'' ''Boss'')
           (handleOnChange (InputChange ''email'' ''jane.doe@example.com'')
              (initialState ?env :: unit CreateUserState))"
  let ?bare = "handleOnChange (InputChange ''email'' ''jane.doe'')
           (initialState ?env :: unit CreateUserState)"
  have address: "email ?st = ''jane.doe'' @ CHR ''@'' # ''example.com'' \<and> CHR ''@'' \<notin> set ''jane.doe''"
    by (simp add: initialState_def)
  have first: "user_name (userProfile ?env ?st) = Some ''jane.doe''"
    by (rule user_name_from_email [THEN conjunct2, THEN conjunct1, THEN spec, THEN spec, THEN mp,
          OF address])
  have none: "CHR ''@'' \<notin> set (email ?bare)"
    by (simp add: initialState_def)
  have "user_name (userProfile ?env ?bare) = Some (email ?bare)"
    by (rule user_name_from_email [THEN conjunct2, THEN conjunct2, THEN conjunct1, THEN mp, OF none])
  then have second: "user_name (userProfile ?env ?bare) = Some ''jane.doe''"
    by (simp add: initialState_def)
  from first second show ?thesis by (rule conjI)
qed

text \<open>
  C4 (as amended). For a bot with the mechanism \<^verbatim>\<open>Sso\<close> under the provider Okta, whose
  credentials were empty and where the inputs edited since are exactly the four required
  ones (\<^verbatim>\<open>privateKey\<close>, \<^verbatim>\<open>clientId\<close>, \<^verbatim>\<open>orgURL\<close>, \<^verbatim>\<open>oktaEmail\<close>, in any order and any
  number of times), the payload's \<^verbatim>\<open>authenticationMechanism.config\<close> has the two
  properties \<^verbatim>\<open>ssoServiceType\<close>, which is Okta, and \<^verbatim>\<open>authConfig\<close>; \<^verbatim>\<open>authConfig\<close> has
  exactly the four properties \<^verbatim>\<open>privateKey\<close>, \<^verbatim>\<open>clientId\<close>, \<^verbatim>\<open>orgURL\<close> and \<^verbatim>\<open>email\<close>,
  each once, holding the value entered last.
\<close>

theorem okta_config:
  assumes "forceBot env" and "provider env = Some Okta"
    and "authMechanism st0 = Sso" and "ssoClientConfig st0 = []"
    and "fst ` set edits = {''privateKey'', ''clientId'', ''orgURL'', ''oktaEmail''}"
    and "st = foldl (\<lambda>s e. handleOnChange (InputChange (fst e) (snd e)) s) st0 edits"
  shows "\<exists>cfg.
           user_authenticationMechanism (userProfile env st) =
             Some \<lparr>authType = Sso,
                   config = [(''ssoServiceType'', VProvider (Some Okta)),
                             (''authConfig'', VObject cfg)]\<rparr> \<and>
           distinct (map fst cfg) \<and>
           set (map fst cfg) = {''privateKey'', ''clientId'', ''orgURL'', ''email''} \<and>
           map_of cfg =
             map_of (rev (map (\<lambda>e. (if fst e = ''oktaEmail'' then ''email'' else fst e,
                                      VString (snd e))) edits))"
proof -
  let ?k = "\<lambda>e :: string \<times> string. if fst e = ''oktaEmail'' then ''email'' else fst e"
  let ?w = "\<lambda>e :: string \<times> string. VString (snd e)"
  let ?cfg = "foldl (\<lambda>c e. objectSet c (?k e) (?w e)) [] edits"
  from assms(5) have names: "\<forall>e \<in> set edits. fst e \<in> {''privateKey'', ''clientId'', ''orgURL'', ''oktaEmail''}"
    by blast
  from edits_config [OF names, of st0] assms(4,6) have cfg: "ssoClientConfig st = ?cfg"
    by simp
  from edits_authMechanism [of st0 edits] assms(3,6) have mech: "authMechanism st = Sso"
    by simp
  from assms(1,2) cfg mech
  have payload: "user_authenticationMechanism (userProfile env st) =
             Some \<lparr>authType = Sso,
                   config = [(''ssoServiceType'', VProvider (Some Okta)),
                             (''authConfig'', VObject ?cfg)]\<rparr>"
    by (simp add: userProfile_def Let_def)
  have dist: "distinct (map fst ?cfg)"
    by (rule objectSet_foldl_distinct) simp
  have "fst ` set ?cfg = ?k ` set edits"
    using objectSet_foldl_keys [of ?k ?w "[]" edits] by simp
  also have "\<dots> = (\<lambda>n. if n = ''oktaEmail'' then ''email'' else n) ` fst ` set edits"
    by (simp only: image_image)
  also have "\<dots> = {''privateKey'', ''clientId'', ''orgURL'', ''email''}"
    by (simp only: assms(5)) simp
  finally have keys: "set (map fst ?cfg) = {''privateKey'', ''clientId'', ''orgURL'', ''email''}"
    by simp
  have vals: "map_of ?cfg = map_of (rev (map (\<lambda>e. (?k e, ?w e)) edits))"
    using objectSet_foldl_map_of [of ?k ?w "[]" edits] by simp
  from payload dist keys vals show ?thesis by blast
qed

theorem okta_config_witness:
  "\<exists>cfg.
     user_authenticationMechanism
       (userProfile \<lparr>forceBot = True, provider = Some Okta,
      typeEmail = (\<lambda>s. CHR ''@'' \<in> set s), validEmailRegEx = (\<lambda>s. CHR ''@'' \<in> set s)\<rparr>
          (foldl (\<lambda>s e. handleOnChange (InputChange (fst e) (snd e)) s)
             (setAuthMechanism Sso (initialState \<lparr>forceBot = True, provider = Some Okta,
      typeEmail = (\<lambda>s. CHR ''@'' \<in> set s), validEmailRegEx = (\<lambda>s. CHR ''@'' \<in> set s)\<rparr> :: unit CreateUserState))
             [(''privateKey'', ''pk''), (''clientId'', ''c1''), (''orgURL'', ''https://org''),
              (''oktaEmail'', ''svc@org''), (''clientId'', ''c2'')]))
       = Some \<lparr>authType = Sso,
               config = [(''ssoServiceType'', VProvider (Some Okta)), (''authConfig'', VObject cfg)]\<rparr> \<and>
     set (map fst cfg) = {''privateKey'', ''clientId'', ''orgURL'', ''email''} \<and>
     map_of cfg ''clientId'' = Some (VString ''c2'') \<and>
     map_of cfg ''email'' = Some (VString ''svc@org'')"
proof -
  let ?env = "\<lparr>forceBot = True, provider = Some Okta,
      typeEmail = (\<lambda>s. CHR ''@'' \<in> set s), validEmailRegEx = (\<lambda>s. CHR ''@'' \<in> set s)\<rparr>"
  let ?st0 = "setAuthMechanism Sso (initialState ?env :: unit CreateUserState)"
  let ?edits = "[(''privateKey'', ''pk''), (''clientId'', ''c1''), (''orgURL'', ''https://org''),
              (''oktaEmail'', ''svc@org''), (''clientId'', ''c2'')]"
  have bot: "forceBot ?env" by simp
  have okta: "provider ?env = Some Okta" by simp
  have sso: "authMechanism ?st0 = Sso" by (simp add: setAuthMechanism_def)
  have fresh: "ssoClientConfig ?st0 = []" by (simp add: setAuthMechanism_def initialState_def)
  have names: "fst ` set ?edits = {''privateKey'', ''clientId'', ''orgURL'', ''oktaEmail''}"
    by (simp add: insert_commute)
  from okta_config [OF bot okta sso fresh names refl] obtain cfg where
    "user_authenticationMechanism
       (userProfile ?env (foldl (\<lambda>s e. handleOnChange (InputChange (fst e) (snd e)) s) ?st0 ?edits))
       = Some \<lparr>authType = Sso,
               config = [(''ssoServiceType'', VProvider (Some Okta)), (''authConfig'', VObject cfg)]\<rparr>"
    and "set (map fst cfg) = {''privateKey'', ''clientId'', ''orgURL'', ''email''}"
    and vals: "map_of cfg =
             map_of (rev (map (\<lambda>e. (if fst e = ''oktaEmail'' then ''email'' else fst e,
                                      VString (snd e))) ?edits))"
    by blast
  moreover from vals have "map_of cfg ''clientId'' = Some (VString ''c2'')" by simp
  moreover from vals have "map_of cfg ''email'' = Some (VString ''svc@org'')" by simp
  ultimately show ?thesis by blast
qed

text \<open>
  The claim as first stated puts the four fields in \<^verbatim>\<open>config\<close> itself. With the four
  inputs filled, \<^verbatim>\<open>config\<close> has the properties \<^verbatim>\<open>ssoServiceType\<close> and \<^verbatim>\<open>authConfig\<close>
  and none of the four; they are inside \<^verbatim>\<open>authConfig\<close>.
\<close>

theorem okta_config_counterexample:
  "user_authenticationMechanism
     (userProfile \<lparr>forceBot = True, provider = Some Okta,
      typeEmail = (\<lambda>s. CHR ''@'' \<in> set s), validEmailRegEx = (\<lambda>s. CHR ''@'' \<in> set s)\<rparr>
        (foldl (\<lambda>s e. handleOnChange (InputChange (fst e) (snd e)) s)
           (setAuthMechanism Sso (initialState \<lparr>forceBot = True, provider = Some Okta,
      typeEmail = (\<lambda>s. CHR ''@'' \<in> set s), validEmailRegEx = (\<lambda>s. CHR ''@'' \<in> set s)\<rparr> :: unit CreateUserState))
           [(''privateKey'', ''pk''), (''clientId'', ''c1''), (''orgURL'', ''https://org''),
            (''oktaEmail'', ''svc@org'')]))
     = Some \<lparr>authType = Sso,
             config =
               [(''ssoServiceType'', VProvider (Some Okta)),
                (''authConfig'',
                 VObject [(''privateKey'', VString ''pk''), (''clientId'', VString ''c1''),
                          (''orgURL'', VString ''https://org''), (''email'', VString ''svc@org'')])]\<rparr> \<and>
   map fst
     (case user_authenticationMechanism
        (userProfile \<lparr>forceBot = True, provider = Some Okta,
      typeEmail = (\<lambda>s. CHR ''@'' \<in> set s), validEmailRegEx = (\<lambda>s. CHR ''@'' \<in> set s)\<rparr>
          (foldl (\<lambda>s e. handleOnChange (InputChange (fst e) (snd e)) s)
             (setAuthMechanism Sso (initialState \<lparr>forceBot = True, provider = Some Okta,
      typeEmail = (\<lambda>s. CHR ''@'' \<in> set s), validEmailRegEx = (\<lambda>s. CHR ''@'' \<in> set s)\<rparr> :: unit CreateUserState))
             [(''privateKey'', ''pk''), (''clientId'', ''c1''), (''orgURL'', ''https://org''),
              (''oktaEmail'', ''svc@org'')])) of
        None \<Rightarrow> []
      | Some m \<Rightarrow> config m)
     = [''ssoServiceType'', ''authConfig'']"
  by (simp add: userProfile_def setAuthMechanism_def initialState_def Let_def)

text \<open>
  C6 (as amended). In the mode \<^verbatim>\<open>CreatePassword\<close>, with password \<open>p\<close> and the value \<open>v\<close> of
  the confirmation input: when \<open>v\<close> is not \<open>p\<close> (another string, or nothing yet) the
  validator rejects with the message \<^verbatim>\<open>Password doesn't match\<close> and \<^verbatim>\<open>onSave\<close> is not
  called; when \<open>v\<close> is \<open>p\<close> the validator accepts, and the submission proceeds (\<^verbatim>\<open>onSave\<close>
  is called with the composed payload) provided \<open>p\<close> is not empty, is what the password
  input holds, and the rules of the other items pass.
\<close>

theorem confirm_password_rule:
  assumes "passwordGenerator st = CreatePassword"
    and "password st = p" and "formStore st ''confirmPassword'' = v"
  shows "(v \<noteq> Some p \<longrightarrow>
            confirmPasswordValidator p v = Some ''Password doesn't match'' \<and>
            submitUserForm env st = st \<and> saved (submitUserForm env st) = saved st) \<and>
         (v = Some p \<longrightarrow> confirmPasswordValidator p v = None) \<and>
         (v = Some p \<and> p \<noteq> [] \<and> formStore st ''password'' = Some p \<and>
          emailRules env st = [] \<and> botRules env st = [] \<longrightarrow>
            submitUserForm env st = handleSave env st \<and>
            saved (submitUserForm env st) = saved st @ [userProfile env st])"
proof (intro conjI impI)
  assume "v \<noteq> Some p"
  then show "confirmPasswordValidator p v = Some ''Password doesn't match''"
    by (simp add: confirmPasswordValidator_def)
  from \<open>v \<noteq> Some p\<close> assms have "submitUserForm env st = st"
    by (simp add: mismatch_blocks)
  then show "submitUserForm env st = st" and "saved (submitUserForm env st) = saved st"
    by simp_all
next
  assume "v = Some p"
  then show "confirmPasswordValidator p v = None"
    by (simp add: confirmPasswordValidator_def)
next
  assume "v = Some p \<and> p \<noteq> [] \<and> formStore st ''password'' = Some p \<and>
          emailRules env st = [] \<and> botRules env st = []"
  with assms have "submitUserForm env st = handleSave env st"
    by (simp add: match_passes)
  then show "submitUserForm env st = handleSave env st"
    and "saved (submitUserForm env st) = saved st @ [userProfile env st]"
    by (simp_all add: handleSave_def)
qed

theorem confirm_password_rule_witness:
  "map user_password
     (saved (submitUserForm \<lparr>forceBot = False, provider = None,
      typeEmail = (\<lambda>s. CHR ''@'' \<in> set s), validEmailRegEx = (\<lambda>s. CHR ''@'' \<in> set s)\<rparr>
        (inputOnChange ''confirmPassword'' ''Abc123!''
           (inputOnChange ''password'' ''Abc123!''
              (handleOnChange (RadioChange ''passwordGenerator'' CreatePassword)
                 (inputOnChange ''email'' ''jane.doe@example.com''
                    (initialState \<lparr>forceBot = False, provider = None,
      typeEmail = (\<lambda>s. CHR ''@'' \<in> set s), validEmailRegEx = (\<lambda>s. CHR ''@'' \<in> set s)\<rparr> :: unit CreateUserState)))))))
   = [''Abc123!''] \<and>
   saved (submitUserForm \<lparr>forceBot = False, provider = None,
      typeEmail = (\<lambda>s. CHR ''@'' \<in> set s), validEmailRegEx = (\<lambda>s. CHR ''@'' \<in> set s)\<rparr>
        (inputOnChange ''confirmPassword'' ''Abc124!''
           (inputOnChange ''password'' ''Abc123!''
              (handleOnChange (RadioChange ''passwordGenerator'' CreatePassword)
                 (inputOnChange ''email'' ''jane.doe@example.com''
                    (initialState \<lparr>forceBot = False, provider = None,
      typeEmail = (\<lambda>s. CHR ''@'' \<in> set s), validEmailRegEx = (\<lambda>s. CHR ''@'' \<in> set s)\<rparr> :: unit CreateUserState))))))
   = [] \<and>
   saved (submitUserForm \<lparr>forceBot = False, provider = None,
      typeEmail = (\<lambda>s. CHR ''@'' \<in> set s), validEmailRegEx = (\<lambda>s. CHR ''@'' \<in> set s)\<rparr>
        (inputOnChange ''password'' ''Abc123!''
              (handleOnChange (RadioChange ''passwordGenerator'' CreatePassword)
                 (inputOnChange ''email'' ''jane.doe@example.com''
                    (initialState \<lparr>forceBot = False, provider = None,
      typeEmail = (\<lambda>s. CHR ''@'' \<in> set s), validEmailRegEx = (\<lambda>s. CHR ''@'' \<in> set s)\<rparr> :: unit CreateUserState)))))
   = []"
proof -
  let ?env = "\<lparr>forceBot = False, provider = None,
      typeEmail = (\<lambda>s. CHR ''@'' \<in> set s), validEmailRegEx = (\<lambda>s. CHR ''@'' \<in> set s)\<rparr>"
  let ?typed = "(inputOnChange ''password'' ''Abc123!''
              (handleOnChange (RadioChange ''passwordGenerator'' CreatePassword)
                 (inputOnChange ''email'' ''jane.doe@example.com''
                    (initialState \<lparr>forceBot = False, provider = None,
      typeEmail = (\<lambda>s. CHR ''@'' \<in> set s), validEmailRegEx = (\<lambda>s. CHR ''@'' \<in> set s)\<rparr> :: unit CreateUserState))))"
  let ?same = "inputOnChange ''confirmPassword'' ''Abc123!'' ?typed"
  let ?other = "inputOnChange ''confirmPassword'' ''Abc124!'' ?typed"
  have mode: "passwordGenerator ?same = CreatePassword"
    by (simp add: inputOnChange_def)
  have pwd: "password ?same = ''Abc123!''"
    by (simp add: inputOnChange_def)
  have conf: "formStore ?same ''confirmPassword'' = Some ''Abc123!''"
    by (simp add: inputOnChange_def)
  have rest: "Some ''Abc123!'' = Some ''Abc123!'' \<and> ''Abc123!'' \<noteq> [] \<and>
      formStore ?same ''password'' = Some ''Abc123!'' \<and>
      emailRules ?env ?same = [] \<and> botRules ?env ?same = []"
    by (simp add: inputOnChange_def emailRules_def botRules_def)
  from confirm_password_rule [OF mode pwd conf, of ?env, THEN conjunct2, THEN conjunct2, THEN mp, OF rest]
  have "saved (submitUserForm ?env ?same) = saved ?same @ [userProfile ?env ?same]"
    by (rule conjunct2)
  then have proceeds: "map user_password (saved (submitUserForm ?env ?same)) = [''Abc123!'']"
    by (simp add: inputOnChange_def userProfile_def initialState_def Let_def)
  have mode': "passwordGenerator ?other = CreatePassword"
    by (simp add: inputOnChange_def)
  have pwd': "password ?other = ''Abc123!''"
    by (simp add: inputOnChange_def)
  have conf': "formStore ?other ''confirmPassword'' = Some ''Abc124!''"
    by (simp add: inputOnChange_def)
  have differ: "Some ''Abc124!'' \<noteq> Some ''Abc123!''" by simp
  from confirm_password_rule [OF mode' pwd' conf', of ?env, THEN conjunct1, THEN mp, OF differ]
  have "saved (submitUserForm ?env ?other) = saved ?other"
    by (rule conjunct2 [THEN conjunct2])
  then have blocked: "saved (submitUserForm ?env ?other) = []"
    by (simp add: inputOnChange_def initialState_def)
  have mode'': "passwordGenerator ?typed = CreatePassword"
    by (simp add: inputOnChange_def)
  have pwd'': "password ?typed = ''Abc123!''"
    by (simp add: inputOnChange_def)
  have conf'': "formStore ?typed ''confirmPassword'' = None"
    by (simp add: inputOnChange_def initialState_def)
  have unset: "None \<noteq> Some ''Abc123!''" by simp
  from confirm_password_rule [OF mode'' pwd'' conf'', of ?env, THEN conjunct1, THEN mp, OF unset]
  have "saved (submitUserForm ?env ?typed) = saved ?typed"
    by (rule conjunct2 [THEN conjunct2])
  then have untouched: "saved (submitUserForm ?env ?typed) = []"
    by (simp add: inputOnChange_def initialState_def)
  from proceeds blocked untouched show ?thesis by (intro conjI)
qed

text \<open>
  The claim as first stated fails for the empty password. After the password and the
  confirmation were typed and erased again, the confirmation input holds the empty
  string, which is the password: the validator accepts, and the e-mail item passes, but
  both password items are required, so \<^verbatim>\<open>onSave\<close> is not called.
\<close>

theorem empty_password_counterexample:
  "formStore
     (inputOnChange ''confirmPassword'' []
        (inputOnChange ''confirmPassword'' ''A''
           (inputOnChange ''password'' []
              (inputOnChange ''password'' ''A''
                 (handleOnChange (RadioChange ''passwordGenerator'' CreatePassword)
                    (inputOnChange ''email'' ''jane.doe@example.com''
                       (initialState \<lparr>forceBot = False, provider = None,
      typeEmail = (\<lambda>s. CHR ''@'' \<in> set s), validEmailRegEx = (\<lambda>s. CHR ''@'' \<in> set s)\<rparr> :: unit CreateUserState))))))) ''confirmPassword''
   = Some (password
     (inputOnChange ''confirmPassword'' []
        (inputOnChange ''confirmPassword'' ''A''
           (inputOnChange ''password'' []
              (inputOnChange ''password'' ''A''
                 (handleOnChange (RadioChange ''passwordGenerator'' CreatePassword)
                    (inputOnChange ''email'' ''jane.doe@example.com''
                       (initialState \<lparr>forceBot = False, provider = None,
      typeEmail = (\<lambda>s. CHR ''@'' \<in> set s), validEmailRegEx = (\<lambda>s. CHR ''@'' \<in> set s)\<rparr> :: unit CreateUserState)))))))) \<and>
   confirmPasswordValidator
     (password
     (inputOnChange ''confirmPassword'' []
        (inputOnChange ''confirmPassword'' ''A''
           (inputOnChange ''password'' []
              (inputOnChange ''password'' ''A''
                 (handleOnChange (RadioChange ''passwordGenerator'' CreatePassword)
                    (inputOnChange ''email'' ''jane.doe@example.com''
                       (initialState \<lparr>forceBot = False, provider = None,
      typeEmail = (\<lambda>s. CHR ''@'' \<in> set s), validEmailRegEx = (\<lambda>s. CHR ''@'' \<in> set s)\<rparr> :: unit CreateUserState))))))))
     (formStore
     (inputOnChange ''confirmPassword'' []
        (inputOnChange ''confirmPassword'' ''A''
           (inputOnChange ''password'' []
              (inputOnChange ''password'' ''A''
                 (handleOnChange (RadioChange ''passwordGenerator'' CreatePassword)
                    (inputOnChange ''email'' ''jane.doe@example.com''
                       (initialState \<lparr>forceBot = False, provider = None,
      typeEmail = (\<lambda>s. CHR ''@'' \<in> set s), validEmailRegEx = (\<lambda>s. CHR ''@'' \<in> set s)\<rparr> :: unit CreateUserState))))))) ''confirmPassword'')
   = None \<and>
   emailRules \<lparr>forceBot = False, provider = None,
      typeEmail = (\<lambda>s. CHR ''@'' \<in> set s), validEmailRegEx = (\<lambda>s. CHR ''@'' \<in> set s)\<rparr>
     (inputOnChange ''confirmPassword'' []
        (inputOnChange ''confirmPassword'' ''A''
           (inputOnChange ''password'' []
              (inputOnChange ''password'' ''A''
                 (handleOnChange (RadioChange ''passwordGenerator'' CreatePassword)
                    (inputOnChange ''email'' ''jane.doe@example.com''
                       (initialState \<lparr>forceBot = False, provider = None,
      typeEmail = (\<lambda>s. CHR ''@'' \<in> set s), validEmailRegEx = (\<lambda>s. CHR ''@'' \<in> set s)\<rparr> :: unit CreateUserState))))))) = [] \<and>
   validateUserForm \<lparr>forceBot = False, provider = None,
      typeEmail = (\<lambda>s. CHR ''@'' \<in> set s), validEmailRegEx = (\<lambda>s. CHR ''@'' \<in> set s)\<rparr>
     (inputOnChange ''confirmPassword'' []
        (inputOnChange ''confirmPassword'' ''A''
           (inputOnChange ''password'' []
              (inputOnChange ''password'' ''A''
                 (handleOnChange (RadioChange ''passwordGenerator'' CreatePassword)
                    (inputOnChange ''email'' ''jane.doe@example.com''
                       (initialState \<lparr>forceBot = False, provider = None,
      typeEmail = (\<lambda>s. CHR ''@'' \<in> set s), validEmailRegEx = (\<lambda>s. CHR ''@'' \<in> set s)\<rparr> :: unit CreateUserState)))))))
   = [PasswordField, ConfirmPasswordField] \<and>
   saved (submitUserForm \<lparr>forceBot = False, provider = None,
      typeEmail = (\<lambda>s. CHR ''@'' \<in> set s), validEmailRegEx = (\<lambda>s. CHR ''@'' \<in> set s)\<rparr>
     (inputOnChange ''confirmPassword'' []
        (inputOnChange ''confirmPassword'' ''A''
           (inputOnChange ''password'' []
              (inputOnChange ''password'' ''A''
                 (handleOnChange (RadioChange ''passwordGenerator'' CreatePassword)
                    (inputOnChange ''email'' ''jane.doe@example.com''
                       (initialState \<lparr>forceBot = False, provider = None,
      typeEmail = (\<lambda>s. CHR ''@'' \<in> set s), validEmailRegEx = (\<lambda>s. CHR ''@'' \<in> set s)\<rparr> :: unit CreateUserState))))))))
   = []"
  by (simp add: submitUserForm_def validateUserForm_def passwordRules_def emailRules_def
      botRules_def confirmPasswordValidator_def requiredRule_def inputOnChange_def
      initialState_def)




end
